theory Spec2Isabelle
  imports Complex_Main "HOL-Library.Sublist" "HOL-Library.Multiset"
begin

section \<open>JavaScript strings and numbers\<close>

text \<open>
  The dashboard script \<^verbatim>\<open>static/js/app.js\<close> works on DOM text. A JavaScript string is
  modelled as a \<^typ>\<open>string\<close>, one \<^typ>\<open>char\<close> per code unit, which covers the code units
  0 to 255 (ASCII and Latin-1). A number that the script parses or prints is a whole
  number, modelled as an \<^typ>\<open>int\<close>; the value \<^verbatim>\<open>NaN\<close> is \<^term>\<open>None\<close> of an option type.
  The rounding of IEEE doubles is not modelled: the model is exact, as JavaScript is on
  the whole numbers below \<open>2 ^ 53\<close>.
\<close>

named_theorems js_eval \<open>rules that evaluate the built-in functions on literals\<close>

subsection \<open>Digits\<close>

definition digitTable :: "(char \<times> nat) list" where
  "digitTable =
     [(CHR ''0'', 0), (CHR ''1'', 1), (CHR ''2'', 2), (CHR ''3'', 3), (CHR ''4'', 4),
      (CHR ''5'', 5), (CHR ''6'', 6), (CHR ''7'', 7), (CHR ''8'', 8), (CHR ''9'', 9),
      (CHR ''a'', 10), (CHR ''b'', 11), (CHR ''c'', 12), (CHR ''d'', 13), (CHR ''e'', 14),
      (CHR ''f'', 15), (CHR ''A'', 10), (CHR ''B'', 11), (CHR ''C'', 12), (CHR ''D'', 13),
      (CHR ''E'', 14), (CHR ''F'', 15)]"

definition digitOf :: "nat \<Rightarrow> char \<Rightarrow> nat option" where
  "digitOf R c = (case map_of digitTable c of
                    None \<Rightarrow> None
                  | Some d \<Rightarrow> if d < R then Some d else None)"

definition isRadixDigit :: "nat \<Rightarrow> char \<Rightarrow> bool" where
  "isRadixDigit R c = (digitOf R c \<noteq> None)"

definition digitChar :: "nat \<Rightarrow> char" where
  "digitChar d = ''0123456789'' ! d"

definition isDecimal :: "char \<Rightarrow> bool" where
  "isDecimal c = (c \<in> set ''0123456789'')"

text \<open>\<^verbatim>\<open>Number.prototype.toString\<close> on a whole number: the decimal digits, after a minus sign
  when the number is negative.\<close>

fun digits :: "nat \<Rightarrow> string" where
  "digits n = (if n < 10 then [digitChar n] else digits (n div 10) @ [digitChar (n mod 10)])"

declare digits.simps [simp del]

definition numberToString :: "int \<Rightarrow> string" where
  "numberToString n = (if n < 0 then CHR ''-'' # digits (nat (- n)) else digits (nat n))"

subsection \<open>\<^verbatim>\<open>parseInt\<close>\<close>

text \<open>
  \<^verbatim>\<open>parseInt(s)\<close> with no radix: leading white space is skipped, one sign is read, the
  prefix \<^verbatim>\<open>0x\<close> or \<^verbatim>\<open>0X\<close> switches to radix 16, and the longest run of digits of the radix
  is the value. No digit at all gives \<^verbatim>\<open>NaN\<close>; whatever follows the digits is ignored.
\<close>

definition isWhiteSpace :: "char \<Rightarrow> bool" where
  "isWhiteSpace c =
     (c \<in> set [CHR 0x09, CHR 0x0A, CHR 0x0B, CHR 0x0C, CHR 0x0D, CHR 0x20, CHR 0xA0])"

fun stripSign :: "string \<Rightarrow> int \<times> string" where
  "stripSign [] = (1, [])"
| "stripSign (c # r) =
     (if c = CHR ''-'' then (- 1, r) else if c = CHR ''+'' then (1, r) else (1, c # r))"

fun stripPrefix :: "string \<Rightarrow> nat \<times> string" where
  "stripPrefix (a # b # r) =
     (if a = CHR ''0'' \<and> (b = CHR ''x'' \<or> b = CHR ''X'') then (16, r) else (10, a # b # r))"
| "stripPrefix s = (10, s)"

definition mathInt :: "nat \<Rightarrow> string \<Rightarrow> nat" where
  "mathInt R Z = foldl (\<lambda>a c. a * R + the (digitOf R c)) 0 Z"

fun parseDigits :: "int \<Rightarrow> nat \<times> string \<Rightarrow> int option" where
  "parseDigits sign (R, S) =
     (case takeWhile (isRadixDigit R) S of
        [] \<Rightarrow> None
      | c # Z \<Rightarrow> Some (sign * int (mathInt R (c # Z))))"

fun parseSigned :: "int \<times> string \<Rightarrow> int option" where
  "parseSigned (sign, S) = parseDigits sign (stripPrefix S)"

definition parseInt :: "string \<Rightarrow> int option" where
  "parseInt s = parseSigned (stripSign (dropWhile isWhiteSpace s))"

text \<open>The relational operators on numbers: a comparison with \<^verbatim>\<open>NaN\<close> is false.\<close>

fun js_gt :: "int option \<Rightarrow> int option \<Rightarrow> bool" where
  "js_gt (Some a) (Some b) = (a > b)"
| "js_gt _ _ = False"

fun js_lt :: "int option \<Rightarrow> int option \<Rightarrow> bool" where
  "js_lt (Some a) (Some b) = (a < b)"
| "js_lt _ _ = False"

subsection \<open>\<^verbatim>\<open>toLocaleString\<close> on a whole number\<close>

text \<open>
  \<^verbatim>\<open>Number.prototype.toLocaleString()\<close> prints in the browser's locale, which the script
  does not choose: the digits, the sign, the separator and the grouping all belong to
  the locale. In the model the whole formatter is a parameter of the browser
  (\<open>formatNumber\<close> below) and nothing is assumed of it. \<open>groupedDecimal\<close> is the
  formatter of two locales, used for the examples: ASCII digits in groups of three
  after an ASCII minus sign, as \<^verbatim>\<open>en-US\<close> (separator \<^verbatim>\<open>,\<close>) and \<^verbatim>\<open>de-DE\<close> (separator \<^verbatim>\<open>.\<close>)
  print whole numbers.
\<close>

definition pad3 :: "nat \<Rightarrow> string" where
  "pad3 m = [digitChar (m div 100), digitChar (m div 10 mod 10), digitChar (m mod 10)]"

fun groupDigits :: "string \<Rightarrow> nat \<Rightarrow> string" where
  "groupDigits sep n =
     (if n < 1000 then digits n else groupDigits sep (n div 1000) @ sep @ pad3 (n mod 1000))"

declare groupDigits.simps [simp del]

definition groupedDecimal :: "string \<Rightarrow> int \<Rightarrow> string" where
  "groupedDecimal sep n =
     (if n < 0 then CHR ''-'' # groupDigits sep (nat (- n)) else groupDigits sep (nat n))"

subsection \<open>String helpers\<close>

text \<open>\<^verbatim>\<open>xs.join(sep)\<close> on an array of strings.\<close>

fun join :: "string \<Rightarrow> string list \<Rightarrow> string" where
  "join sep [] = []"
| "join sep [x] = x"
| "join sep (x # y # ys) = x @ sep @ join sep (y # ys)"

text \<open>\<^verbatim>\<open>s.replace(/c/g, r)\<close> for a single character \<open>c\<close>: every occurrence is replaced.\<close>

fun replaceAll :: "char \<Rightarrow> string \<Rightarrow> string \<Rightarrow> string" where
  "replaceAll c r [] = []"
| "replaceAll c r (x # xs) = (if x = c then r @ replaceAll c r xs else x # replaceAll c r xs)"


section \<open>Values of the status payload\<close>

text \<open>
  \<^verbatim>\<open>response.json()\<close> yields any JSON value; reading a property that an object lacks
  yields \<^verbatim>\<open>undefined\<close>. Numbers are whole numbers.
\<close>

datatype jsval =
    JUndefined
  | JNull
  | JBool bool
  | JNum int
  | JStr string
  | JArr "jsval list"
  | JObj "(string \<times> jsval) list"

datatype js_error = TypeError

text \<open>
  The conversion \<^verbatim>\<open>ToString\<close>, applied when a value is assigned to \<^verbatim>\<open>textContent\<close> and
  to the elements of an array that is joined. A parsed object has no function among
  its own properties: one with an own property \<^verbatim>\<open>toString\<close> cannot be converted and
  the conversion throws; any other object prints through \<^verbatim>\<open>Object.prototype.toString\<close>.
\<close>

fun collect :: "(js_error + string) list \<Rightarrow> js_error + string list" where
  "collect [] = Inr []"
| "collect (x # xs) =
     (case x of
        Inl err \<Rightarrow> Inl err
      | Inr y \<Rightarrow> (case collect xs of Inl err \<Rightarrow> Inl err | Inr ys \<Rightarrow> Inr (y # ys)))"

fun toString :: "jsval \<Rightarrow> js_error + string" where
  "toString JUndefined = Inr ''undefined''"
| "toString JNull = Inr ''null''"
| "toString (JBool b) = Inr (if b then ''true'' else ''false'')"
| "toString (JNum n) = Inr (numberToString n)"
| "toString (JStr s) = Inr s"
| "toString (JArr xs) =
     (case collect (map (\<lambda>v. if v = JUndefined \<or> v = JNull then Inr [] else toString v) xs) of
        Inl err \<Rightarrow> Inl err
      | Inr ys \<Rightarrow> Inr (join '','' ys))"
| "toString (JObj kvs) =
     (if map_of kvs ''toString'' \<noteq> None then Inl TypeError else Inr ''[object Object]'')"

text \<open>
  \<^verbatim>\<open>v.toLocaleString()\<close>: a method call, so it throws on \<^verbatim>\<open>undefined\<close> and \<^verbatim>\<open>null\<close>, and
  on an object whose own property \<^verbatim>\<open>toLocaleString\<close> (or \<^verbatim>\<open>toString\<close>, which the inherited
  method calls) is not a function. A string prints as itself, a number through the
  formatter of the locale, an array element by element.
\<close>

fun toLocaleString :: "(int \<Rightarrow> string) \<Rightarrow> jsval \<Rightarrow> js_error + string" where
  "toLocaleString fmt JUndefined = Inl TypeError"
| "toLocaleString fmt JNull = Inl TypeError"
| "toLocaleString fmt (JNum n) = Inr (fmt n)"
| "toLocaleString fmt (JArr xs) =
     (case collect (map (\<lambda>v. if v = JUndefined \<or> v = JNull then Inr []
                                else toLocaleString fmt v) xs) of
        Inl err \<Rightarrow> Inl err
      | Inr ys \<Rightarrow> Inr (join '','' ys))"
| "toLocaleString fmt (JObj kvs) =
     (if map_of kvs ''toLocaleString'' \<noteq> None then Inl TypeError else toString (JObj kvs))"
| "toLocaleString fmt v = toString v"

text \<open>Truthiness, as tested by \<^verbatim>\<open>if (v)\<close> and \<^verbatim>\<open>a && b\<close>.\<close>

fun truthy :: "jsval \<Rightarrow> bool" where
  "truthy JUndefined = False"
| "truthy JNull = False"
| "truthy (JBool b) = b"
| "truthy (JNum n) = (n \<noteq> 0)"
| "truthy (JStr s) = (s \<noteq> [])"
| "truthy (JArr xs) = True"
| "truthy (JObj kvs) = True"

text \<open>
  \<^verbatim>\<open>data.name\<close> for the five names the script reads. On \<^verbatim>\<open>undefined\<close> and \<^verbatim>\<open>null\<close> the
  access throws; primitives and arrays have no property of these names.
\<close>

fun getProp :: "jsval \<Rightarrow> string \<Rightarrow> js_error + jsval" where
  "getProp JUndefined name = Inl TypeError"
| "getProp JNull name = Inl TypeError"
| "getProp (JObj kvs) name = Inr (case map_of kvs name of None \<Rightarrow> JUndefined | Some v \<Rightarrow> v)"
| "getProp v name = Inr JUndefined"

definition propOf :: "jsval \<Rightarrow> string \<Rightarrow> jsval" where
  "propOf data name = (case getProp data name of Inl e \<Rightarrow> JUndefined | Inr v \<Rightarrow> v)"


section \<open>The page\<close>

text \<open>
  The document is the list of its elements in document order; an element has a class
  list, a text and a title. \<^verbatim>\<open>querySelector('.c')\<close> is the first element of class \<open>c\<close>,
  \<^verbatim>\<open>querySelectorAll('.c')\<close> all of them. One element may carry several of the classes
  the script selects, so two selectors may find the same element. The elements the
  script writes to are taken to be leaves: writing a text removes no other element.
\<close>

record element =
  classList :: "string list"
  textContent :: string
  title :: string

record page =
  connectionStatus :: jsval
  lastUpdateTime :: nat
  document :: "element list"
  timers :: "nat list"

text \<open>
  The browser around the script: the number formatter of its locale (what
  \<^verbatim>\<open>toLocaleString()\<close> prints for a whole number), and the clock with the time of day
  as \<^verbatim>\<open>toLocaleTimeString\<close> prints it.
\<close>

record browser =
  formatNumber :: "int \<Rightarrow> string"
  clock :: nat
  clockText :: string

fun querySelector :: "string \<Rightarrow> element list \<Rightarrow> nat option" where
  "querySelector c [] = None"
| "querySelector c (e # es) =
     (if c \<in> set (classList e) then Some 0 else map_option Suc (querySelector c es))"

definition setTextContent :: "nat \<Rightarrow> string \<Rightarrow> page \<Rightarrow> page" where
  "setTextContent i txt s = s\<lparr>document := (document s)[i := (document s ! i)\<lparr>textContent := txt\<rparr>]\<rparr>"

text \<open>\<^verbatim>\<open>classList.add\<close> and \<^verbatim>\<open>classList.remove\<close>: a class list holds a token once.\<close>

definition classListAdd :: "string \<Rightarrow> element \<Rightarrow> element" where
  "classListAdd c e = (if c \<in> set (classList e) then e else e\<lparr>classList := classList e @ [c]\<rparr>)"

definition classListRemove :: "string \<Rightarrow> element \<Rightarrow> element" where
  "classListRemove c e = e\<lparr>classList := filter (\<lambda>x. x \<noteq> c) (classList e)\<rparr>"

definition setIndicator :: "jsval \<Rightarrow> element \<Rightarrow> element" where
  "setIndicator status indicator =
     (if truthy status
      then indicator\<lparr>classList := [''connection-indicator'', ''fas'', ''fa-circle'', ''text-success''],
                     title := ''Connected''\<rparr>
      else indicator\<lparr>classList := [''connection-indicator'', ''fas'', ''fa-circle'', ''text-danger''],
                     title := ''Disconnected''\<rparr>)"

definition updateConnectionIndicator :: "page \<Rightarrow> page" where
  "updateConnectionIndicator s =
     s\<lparr>document := map (\<lambda>e. if ''connection-indicator'' \<in> set (classList e)
                         then setIndicator (connectionStatus s) e else e) (document s)\<rparr>"

text \<open>
  The value a counter shows, as \<^verbatim>\<open>updateCountWithAnimation\<close> reads it:
  \<^verbatim>\<open>parseInt(element.textContent.replace(/,/g, '')) || 0\<close>.
\<close>

definition currentValue :: "string \<Rightarrow> int" where
  "currentValue txt =
     (case parseInt (replaceAll (CHR '','') [] txt) of None \<Rightarrow> 0 | Some n \<Rightarrow> n)"

text \<open>
  \<^verbatim>\<open>updateCountWithAnimation(selector, newValue)\<close>. The result carries the exception, if
  one was thrown, next to the page as it was left. \<^verbatim>\<open>currentValue !== newValue\<close> holds
  for every \<open>newValue\<close> that is not the same number. The call of \<^verbatim>\<open>setTimeout\<close> records
  the element whose class \<^verbatim>\<open>fade-in\<close> is to be removed 300 ms later; \<open>fadeTimeout\<close> is
  that callback.
\<close>

definition updateCountWithAnimation ::
    "browser \<Rightarrow> string \<Rightarrow> jsval \<Rightarrow> page \<Rightarrow> js_error option \<times> page" where
  "updateCountWithAnimation env selector newValue s =
     (case querySelector selector (document s) of
        None \<Rightarrow> (None, s)
      | Some i \<Rightarrow>
          if JNum (currentValue (textContent (document s ! i))) \<noteq> newValue
          then let s1 = s\<lparr>document := (document s)[i := classListAdd ''fade-in'' (document s ! i)]\<rparr>
               in case toLocaleString (formatNumber env) newValue of
                    Inl err \<Rightarrow> (Some err, s1)
                  | Inr txt \<Rightarrow> (None, (setTextContent i txt s1)\<lparr>timers := timers s1 @ [i]\<rparr>)
          else (None, s))"

definition fadeTimeout :: "nat \<Rightarrow> page \<Rightarrow> page" where
  "fadeTimeout i s =
     s\<lparr>document := (document s)[i := classListRemove ''fade-in'' (document s ! i)],
       timers := remove1 i (timers s)\<rparr>"

text \<open>
  \<^verbatim>\<open>if (element && v) element.textContent = v\<close>, for the player and the location. The
  assignment converts \<open>v\<close> to a string, which may throw.
\<close>

definition updateText :: "string \<Rightarrow> jsval \<Rightarrow> page \<Rightarrow> js_error option \<times> page" where
  "updateText selector v s =
     (case querySelector selector (document s) of
        None \<Rightarrow> (None, s)
      | Some i \<Rightarrow>
          if truthy v
          then (case toString v of
                  Inl err \<Rightarrow> (Some err, s)
                | Inr txt \<Rightarrow> (None, setTextContent i txt s))
          else (None, s))"

text \<open>Statements in sequence: an exception ends the sequence and keeps the page as it is then.\<close>

definition andThen ::
    "js_error option \<times> page \<Rightarrow> (page \<Rightarrow> js_error option \<times> page) \<Rightarrow> js_error option \<times> page" where
  "andThen r f = (case r of (Some err, s) \<Rightarrow> (Some err, s) | (None, s) \<Rightarrow> f s)"

definition updateStatus :: "browser \<Rightarrow> jsval \<Rightarrow> page \<Rightarrow> js_error option \<times> page" where
  "updateStatus env data s =
     (case getProp data ''connection_established'' of
        Inl err \<Rightarrow> (Some err, s)
      | Inr established \<Rightarrow>
          let s1 = updateConnectionIndicator (s\<lparr>connectionStatus := established\<rparr>)
          in andThen (updateText ''player-info'' (propOf data ''current_player'') s1) (\<lambda>s2.
             andThen (updateText ''location-info'' (propOf data ''current_location'') s2) (\<lambda>s3.
             andThen (updateCountWithAnimation env ''offers-count'' (propOf data ''offers_count'') s3)
               (updateCountWithAnimation env ''requests-count'' (propOf data ''requests_count'')))))"

definition updateLastUpdateTime :: "browser \<Rightarrow> page \<Rightarrow> page" where
  "updateLastUpdateTime env s =
     s\<lparr>lastUpdateTime := clock env,
       document := map (\<lambda>e. if ''last-update-time'' \<in> set (classList e)
                         then e\<lparr>textContent := clockText env\<rparr> else e) (document s)\<rparr>"

text \<open>
  One poll. \<^verbatim>\<open>fetch\<close> rejects on a network error and resolves on every HTTP response,
  whatever its status; \<^verbatim>\<open>response.json()\<close> rejects when the body is not JSON. The
  handler of \<^verbatim>\<open>catch\<close> also runs when the render step throws, on the page as the render
  step left it. The message written to the console is not part of the page.
\<close>

datatype fetched =
    NetworkError
  | Response nat "jsval option"

definition onRejected :: "page \<Rightarrow> page" where
  "onRejected s = updateConnectionIndicator (s\<lparr>connectionStatus := JBool False\<rparr>)"

definition refreshData :: "browser \<Rightarrow> fetched \<Rightarrow> page \<Rightarrow> page" where
  "refreshData env r s =
     (case r of
        NetworkError \<Rightarrow> onRejected s
      | Response status None \<Rightarrow> onRejected s
      | Response status (Some data) \<Rightarrow>
          (case updateStatus env data s of
             (Some err, s1) \<Rightarrow> onRejected s1
           | (None, s1) \<Rightarrow> updateLastUpdateTime env s1))"

text \<open>
  The promise chain of a poll rejects when \<^verbatim>\<open>fetch\<close> rejects, when \<^verbatim>\<open>response.json()\<close>
  rejects, or when the render step throws.
\<close>

definition chainRejects :: "browser \<Rightarrow> fetched \<Rightarrow> page \<Rightarrow> bool" where
  "chainRejects env r s =
     (case r of
        NetworkError \<Rightarrow> True
      | Response status None \<Rightarrow> True
      | Response status (Some data) \<Rightarrow> fst (updateStatus env data s) \<noteq> None)"



section \<open>Tables\<close>

text \<open>
  A table is its sections (\<^verbatim>\<open>thead\<close>, \<^verbatim>\<open>tbody\<close>, \<^verbatim>\<open>tfoot\<close>) in document order, a section its
  rows, a row its cells (\<^verbatim>\<open>th\<close> or \<^verbatim>\<open>td\<close>) and its \<^verbatim>\<open>style.display\<close>. The two entries of
  \<^verbatim>\<open>dataset\<close> that \<^verbatim>\<open>sortTable\<close> keeps are fields of the table. \<^verbatim>\<open>getElementById\<close> is a
  partial map from ids to tables. Tables are not nested.
\<close>

record cell =
  header :: bool
  cellText :: string
  cellClassList :: "string list"

record row =
  cells :: "cell list"
  display :: string

datatype sectionKind = THead | TBody | TFoot

record tsection =
  kind :: sectionKind
  rows :: "row list"

record table =
  sections :: "tsection list"
  sortColumn :: "string option"
  sortDirection :: "string option"

type_synonym tables = "string \<Rightarrow> table option"

subsection \<open>More string functions\<close>

definition trim :: "string \<Rightarrow> string" where
  "trim s = rev (dropWhile isWhiteSpace (rev (dropWhile isWhiteSpace s)))"

definition isUpperCase :: "char \<Rightarrow> bool" where
  "isUpperCase c =
     (let n = (of_char c :: nat)
      in (65 \<le> n \<and> n \<le> 90) \<or> (192 \<le> n \<and> n \<le> 222 \<and> n \<noteq> 215))"

fun toLowerChar :: "char \<Rightarrow> char" where
  "toLowerChar (Char b0 b1 b2 b3 b4 b5 b6 b7) =
     (if isUpperCase (Char b0 b1 b2 b3 b4 b5 b6 b7)
      then Char b0 b1 b2 b3 b4 True b6 b7
      else Char b0 b1 b2 b3 b4 b5 b6 b7)"

definition toLowerCase :: "string \<Rightarrow> string" where
  "toLowerCase s = map toLowerChar s"

text \<open>\<^verbatim>\<open>text.includes(filter)\<close>: the filter starts at some position of the text.\<close>

fun stringIncludes :: "string \<Rightarrow> string \<Rightarrow> bool" where
  "stringIncludes [] f = (f = [])"
| "stringIncludes (x # xs) f = (prefix f (x # xs) \<or> stringIncludes xs f)"

text \<open>
  \<^verbatim>\<open>parseFloat\<close> on the strings \<^verbatim>\<open>sortTable\<close> passes, which hold only digits, points and
  minus signs: a sign, digits, and digits after a point; \<^verbatim>\<open>NaN\<close> when there is no digit.
  The value is the exact decimal.
\<close>

fun fractionDigits :: "string \<Rightarrow> string" where
  "fractionDigits [] = []"
| "fractionDigits (c # r) = (if c = CHR ''.'' then takeWhile isDecimal r else [])"

fun parseDecimal :: "int \<times> string \<Rightarrow> real option" where
  "parseDecimal (sign, S) =
     (let ip = takeWhile isDecimal S;
          fp = fractionDigits (dropWhile isDecimal S)
      in if ip = [] \<and> fp = [] then None
         else Some (real_of_int sign * real (mathInt 10 (ip @ fp)) / 10 ^ length fp))"

definition parseFloat :: "string \<Rightarrow> real option" where
  "parseFloat s = parseDecimal (stripSign (dropWhile isWhiteSpace s))"

fun js_minus :: "real option \<Rightarrow> real option \<Rightarrow> real option" where
  "js_minus (Some a) (Some b) = Some (a - b)"
| "js_minus _ _ = None"

subsection \<open>\<^verbatim>\<open>exportTableToCSV\<close>\<close>

text \<open>
  The function builds the text of the file and hands it to the browser as a download;
  the link it adds to the document is removed again. The result is the download, or
  \<open>None\<close> when the function returns at once.
\<close>

record download =
  fileName :: string
  fileContent :: string

definition csvField :: "string \<Rightarrow> string" where
  "csvField content =
     (let text = trim content
      in if CHR '','' \<in> set text \<or> CHR 0x22 \<in> set text
         then [CHR 0x22] @ replaceAll (CHR 0x22) [CHR 0x22, CHR 0x22] text @ [CHR 0x22]
         else text)"

definition allRows :: "table \<Rightarrow> row list" where
  "allRows t = concat (map rows (sections t))"

definition exportTableToCSV :: "tables \<Rightarrow> string \<Rightarrow> string option \<Rightarrow> download option" where
  "exportTableToCSV doc tableId filename =
     (case doc tableId of
        None \<Rightarrow> None
      | Some t \<Rightarrow>
          let csv = map (\<lambda>r. join '','' (map (\<lambda>c. csvField (cellText c)) (cells r))) (allRows t);
              csvContent = join [CHR 0x0A] csv
          in Some \<lparr>fileName = (case filename of
                                  None \<Rightarrow> ''albion_market_data.csv''
                                | Some f \<Rightarrow> if f = [] then ''albion_market_data.csv'' else f),
                    fileContent = csvContent\<rparr>)"

subsection \<open>\<^verbatim>\<open>sortTable\<close>\<close>

fun firstBody :: "tsection list \<Rightarrow> nat option" where
  "firstBody [] = None"
| "firstBody (s # ss) = (if kind s = TBody then Some 0 else map_option Suc (firstBody ss))"

definition currentDir :: "table \<Rightarrow> string" where
  "currentDir t = (case sortDirection t of
                     None \<Rightarrow> ''asc''
                   | Some d \<Rightarrow> if d = [] then ''asc'' else d)"

definition newDir :: "table \<Rightarrow> nat \<Rightarrow> string" where
  "newDir t columnIndex =
     (if sortColumn t = Some (numberToString (int columnIndex)) \<and> currentDir t = ''asc''
      then ''desc'' else ''asc'')"

text \<open>
  \<^verbatim>\<open>a.cells[columnIndex].textContent.trim()\<close>: a row with no cell at the index gives
  \<^verbatim>\<open>undefined\<close>, and reading its text throws.
\<close>

definition cellValue :: "row \<Rightarrow> nat \<Rightarrow> js_error + string" where
  "cellValue r columnIndex =
     (if columnIndex < length (cells r) then Inr (trim (cellText (cells r ! columnIndex)))
      else Inl TypeError)"

definition numericChars :: "string \<Rightarrow> string" where
  "numericChars s = filter (\<lambda>c. isDecimal c \<or> c = CHR ''.'' \<or> c = CHR ''-'') s"

text \<open>
  The comparator of \<^verbatim>\<open>rows.sort\<close>. The collation of \<^verbatim>\<open>localeCompare\<close> belongs to the
  browser and is a parameter.
\<close>

definition comparison :: "(string \<Rightarrow> string \<Rightarrow> int) \<Rightarrow> bool \<Rightarrow> string \<Rightarrow> string \<Rightarrow> real option" where
  "comparison localeCompare isNumeric aVal bVal =
     (if isNumeric
      then js_minus (parseFloat (numericChars aVal)) (parseFloat (numericChars bVal))
      else Some (real_of_int (localeCompare aVal bVal)))"

definition compareRows ::
    "(string \<Rightarrow> string \<Rightarrow> int) \<Rightarrow> bool \<Rightarrow> string \<Rightarrow> nat \<Rightarrow> row \<Rightarrow> row
       \<Rightarrow> js_error + real option" where
  "compareRows localeCompare isNumeric dir columnIndex a b =
     (case cellValue a columnIndex of
        Inl err \<Rightarrow> Inl err
      | Inr aVal \<Rightarrow>
          (case cellValue b columnIndex of
             Inl err \<Rightarrow> Inl err
           | Inr bVal \<Rightarrow>
               Inr (if dir = ''asc'' then comparison localeCompare isNumeric aVal bVal
                    else map_option uminus (comparison localeCompare isNumeric aVal bVal))))"

text \<open>
  \<^verbatim>\<open>Array.prototype.sort\<close> is stable; an array of fewer than two elements is returned
  without a call of the comparator, and an exception of the comparator ends the sort.
  The model inserts each row, from the left, into the rows sorted so far, before the
  first row that the comparator puts after it (a result below 0; \<^verbatim>\<open>NaN\<close> counts as 0).
  For a comparator that orders the rows consistently every stable sort gives this
  result. For any other comparator, such as one that returns \<^verbatim>\<open>NaN\<close>, the language
  leaves the order to the engine: the order of the model is then one possible order,
  and nothing is stated about it below.
\<close>

fun insertRow ::
    "(row \<Rightarrow> row \<Rightarrow> js_error + real option) \<Rightarrow> row \<Rightarrow> row list \<Rightarrow> js_error + row list" where
  "insertRow cmp x [] = Inr [x]"
| "insertRow cmp x (y # ys) =
     (case cmp x y of
        Inl err \<Rightarrow> Inl err
      | Inr v \<Rightarrow>
          if (case v of None \<Rightarrow> False | Some d \<Rightarrow> d < 0) then Inr (x # y # ys)
          else (case insertRow cmp x ys of
                  Inl err \<Rightarrow> Inl err
                | Inr zs \<Rightarrow> Inr (y # zs)))"

fun sortRows ::
    "(row \<Rightarrow> row \<Rightarrow> js_error + real option) \<Rightarrow> row list \<Rightarrow> row list \<Rightarrow> js_error + row list" where
  "sortRows cmp acc [] = Inr acc"
| "sortRows cmp acc (x # xs) =
     (case insertRow cmp x acc of
        Inl err \<Rightarrow> Inl err
      | Inr acc' \<Rightarrow> sortRows cmp acc' xs)"

text \<open>
  The header indicators: every \<^verbatim>\<open>th\<close> of the table, counted in document order, loses
  the classes \<^verbatim>\<open>sort-asc\<close> and \<^verbatim>\<open>sort-desc\<close>, and the one whose count is the column index
  gets the class of the new direction.
\<close>

definition markHeader :: "nat \<Rightarrow> string \<Rightarrow> nat \<Rightarrow> cell \<Rightarrow> cell" where
  "markHeader columnIndex dir index c =
     (let removed = filter (\<lambda>x. x \<noteq> ''sort-asc'' \<and> x \<noteq> ''sort-desc'') (cellClassList c)
      in c\<lparr>cellClassList := (if index = columnIndex then removed @ [''sort-'' @ dir] else removed)\<rparr>)"

fun markCells :: "nat \<Rightarrow> string \<Rightarrow> nat \<Rightarrow> cell list \<Rightarrow> nat \<times> cell list" where
  "markCells columnIndex dir index [] = (index, [])"
| "markCells columnIndex dir index (c # cs) =
     (if header c
      then (case markCells columnIndex dir (Suc index) cs of
              (n, cs') \<Rightarrow> (n, markHeader columnIndex dir index c # cs'))
      else (case markCells columnIndex dir index cs of
              (n, cs') \<Rightarrow> (n, c # cs')))"

fun markRows :: "nat \<Rightarrow> string \<Rightarrow> nat \<Rightarrow> row list \<Rightarrow> nat \<times> row list" where
  "markRows columnIndex dir index [] = (index, [])"
| "markRows columnIndex dir index (r # rs) =
     (case markCells columnIndex dir index (cells r) of
        (n, cs') \<Rightarrow>
          (case markRows columnIndex dir n rs of
             (m, rs') \<Rightarrow> (m, r\<lparr>cells := cs'\<rparr> # rs')))"

fun markSections :: "nat \<Rightarrow> string \<Rightarrow> nat \<Rightarrow> tsection list \<Rightarrow> nat \<times> tsection list" where
  "markSections columnIndex dir index [] = (index, [])"
| "markSections columnIndex dir index (s # ss) =
     (case markRows columnIndex dir index (rows s) of
        (n, rs') \<Rightarrow>
          (case markSections columnIndex dir n ss of
             (m, ss') \<Rightarrow> (m, s\<lparr>rows := rs'\<rparr> # ss')))"

text \<open>
  \<^verbatim>\<open>sortTable(tableId, columnIndex, isNumeric)\<close>. With no table of the id the function
  returns at once. \<^verbatim>\<open>table.querySelector('tbody')\<close> is \<^verbatim>\<open>null\<close> when the table has no
  body, and the call of \<^verbatim>\<open>querySelectorAll\<close> on it throws. An exception leaves the
  document as it was: the rows are sorted in an array of their own and only then
  appended to the body again.
\<close>

definition sortTable ::
    "(string \<Rightarrow> string \<Rightarrow> int) \<Rightarrow> tables \<Rightarrow> string \<Rightarrow> nat \<Rightarrow> bool \<Rightarrow> js_error + tables" where
  "sortTable localeCompare doc tableId columnIndex isNumeric =
     (case doc tableId of
        None \<Rightarrow> Inr doc
      | Some t \<Rightarrow>
          (case firstBody (sections t) of
             None \<Rightarrow> Inl TypeError
           | Some k \<Rightarrow>
               let tbody = sections t ! k;
                   dir = newDir t columnIndex
               in case sortRows (compareRows localeCompare isNumeric dir columnIndex) []
                         (rows tbody) of
                    Inl err \<Rightarrow> Inl err
                  | Inr sortedRows \<Rightarrow>
                      Inr (doc(tableId \<mapsto>
                        t\<lparr>sections :=
                             snd (markSections columnIndex dir 0
                                    ((sections t)[k := tbody\<lparr>rows := sortedRows\<rparr>])),
                           sortColumn := Some (numberToString (int columnIndex)),
                           sortDirection := Some dir\<rparr>))))"

subsection \<open>\<^verbatim>\<open>filterTable\<close>\<close>

definition filterRow :: "string \<Rightarrow> nat \<Rightarrow> row \<Rightarrow> row" where
  "filterRow filterText columnIndex r =
     (let text = (if columnIndex < length (cells r)
                  then toLowerCase (cellText (cells r ! columnIndex)) else [])
      in r\<lparr>display := (if stringIncludes text filterText then [] else ''none'')\<rparr>)"

definition filterTable :: "tables \<Rightarrow> string \<Rightarrow> string \<Rightarrow> nat \<Rightarrow> tables" where
  "filterTable doc tableId filterValue columnIndex =
     (case doc tableId of
        None \<Rightarrow> doc
      | Some t \<Rightarrow>
          let filterText = toLowerCase filterValue
          in doc(tableId \<mapsto>
               t\<lparr>sections :=
                    map (\<lambda>s. if kind s = TBody
                              then s\<lparr>rows := map (filterRow filterText columnIndex) (rows s)\<rparr>
                              else s) (sections t)\<rparr>))"

subsection \<open>Words of the specification\<close>

text \<open>
  The rows that \<^verbatim>\<open>table.querySelectorAll('tbody tr')\<close> selects, and the text of the
  cell of a row in a column, empty when the row has no such cell.
\<close>

definition bodyRows :: "table \<Rightarrow> row list" where
  "bodyRows t = concat (map rows (filter (\<lambda>s. kind s = TBody) (sections t)))"

definition columnText :: "row \<Rightarrow> nat \<Rightarrow> string" where
  "columnText r columnIndex =
     (if columnIndex < length (cells r) then cellText (cells r ! columnIndex) else [])"

text \<open>
  A field of a CSV file as the specification words it: a text with a comma or a double
  quote is wrapped in double quotes, every double quote in it doubled; any other text
  stands as it is. Fields are separated by a separator, which stands between any two
  neighbours.
\<close>

definition csvEscaped :: "string \<Rightarrow> string" where
  "csvEscaped text =
     (if CHR '','' \<in> set text \<or> CHR 0x22 \<in> set text
      then [CHR 0x22] @ concat (map (\<lambda>c. if c = CHR 0x22 then [CHR 0x22, CHR 0x22] else [c]) text)
             @ [CHR 0x22]
      else text)"

definition separatedBy :: "string \<Rightarrow> string list \<Rightarrow> string" where
  "separatedBy sep xs =
     (case xs of [] \<Rightarrow> [] | x # ys \<Rightarrow> x @ concat (map (\<lambda>y. sep @ y) ys))"
subsection \<open>Rows that the comparator accepts\<close>

text \<open>
  The comparator of \<^verbatim>\<open>sortTable\<close> reads the cell of both rows at the column index. The
  sort returns when the body has at most one row, or every row has that cell.
\<close>

definition hasCell :: "nat \<Rightarrow> row \<Rightarrow> bool" where
  "hasCell columnIndex r = (columnIndex < length (cells r))"

definition sortableRows :: "nat \<Rightarrow> row list \<Rightarrow> bool" where
  "sortableRows columnIndex rs = (length rs \<le> 1 \<or> (\<forall>r\<in>set rs. hasCell columnIndex r))"

subsection \<open>Rows in order\<close>

text \<open>
  The rows of the body that \<^verbatim>\<open>sortTable\<close> sorts, the texts of the cells of a row, and
  the text that the comparator reads from a row: the trimmed text of its cell in the
  column.
\<close>

definition firstBodyRows :: "table \<Rightarrow> row list" where
  "firstBodyRows t = (case firstBody (sections t) of None \<Rightarrow> [] | Some k \<Rightarrow> rows (sections t ! k))"


definition sortKey :: "nat \<Rightarrow> row \<Rightarrow> string" where
  "sortKey columnIndex r = trim (columnText r columnIndex)"

text \<open>
  A comparison orders a set of texts consistently when some ranking of the texts
  gives all its results their sign: below 0 exactly when the first text ranks lower,
  above 0 exactly when it ranks higher. The numeric comparison does so on texts that
  all hold a number (the ranking is the number), \<^verbatim>\<open>localeCompare\<close> when it orders texts
  by a collation.
\<close>

definition ordersBy :: "(string \<Rightarrow> string \<Rightarrow> real option) \<Rightarrow> (string \<Rightarrow> real) \<Rightarrow> string set \<Rightarrow> bool" where
  "ordersBy cmp rank K =
     (\<forall>x\<in>K. \<forall>y\<in>K. \<exists>d. cmp x y = Some d \<and> (d < 0 \<longleftrightarrow> rank x < rank y) \<and>
                                              (0 < d \<longleftrightarrow> rank y < rank x))"

text \<open>The number that a text holds, for the numeric comparison; 0 when it holds none.\<close>

definition numericRank :: "string \<Rightarrow> real" where
  "numericRank x = (case parseFloat (numericChars x) of None \<Rightarrow> 0 | Some v \<Rightarrow> v)"

subsection \<open>Example tables\<close>

definition textCell :: "bool \<Rightarrow> string \<Rightarrow> cell" where
  "textCell h s = \<lparr>header = h, cellText = s, cellClassList = []\<rparr>"

definition market :: table where
  "market =
     \<lparr>sections =
        [\<lparr>kind = THead,
          rows = [\<lparr>cells = [textCell True ''Item'', textCell True ''Price''], display = []\<rparr>]\<rparr>,
         \<lparr>kind = TBody,
          rows = [\<lparr>cells = [textCell False ''Sword'', textCell False '' 1,200 ''], display = []\<rparr>,
                  \<lparr>cells = [textCell False ''Bag, large'', textCell False ''300''], display = []\<rparr>,
                  \<lparr>cells = [textCell False [CHR 0x22, CHR ''P'', CHR 0x22, CHR '' '', CHR ''x''],
                            textCell False ''45''], display = []\<rparr>]\<rparr>],
      sortColumn = None,
      sortDirection = None\<rparr>"

text \<open>A table whose last body row is one cell wide, as a row of one spanning cell is.\<close>

definition offers :: table where
  "offers =
     \<lparr>sections =
        [\<lparr>kind = TBody,
          rows = [\<lparr>cells = [textCell False ''Sword'', textCell False ''1200''], display = []\<rparr>,
                  \<lparr>cells = [textCell False ''No more offers''], display = []\<rparr>]\<rparr>],
      sortColumn = None,
      sortDirection = None\<rparr>"

definition tablesOfPage :: tables where
  "tablesOfPage = [''market'' \<mapsto> market, ''offers'' \<mapsto> offers]"

text \<open>A collation for the examples: the order of the code units.\<close>

fun codeUnitCompare :: "string \<Rightarrow> string \<Rightarrow> int" where
  "codeUnitCompare [] [] = 0"
| "codeUnitCompare [] (y # ys) = - 1"
| "codeUnitCompare (x # xs) [] = 1"
| "codeUnitCompare (x # xs) (y # ys) =
     (if (of_char x :: nat) < of_char y then - 1
      else if (of_char y :: nat) < of_char x then 1
      else codeUnitCompare xs ys)"


section \<open>The quantity fields\<close>

text \<open>
  \<^verbatim>\<open>setupEventListeners\<close> installs one handler for the \<^verbatim>\<open>input\<close> event on every
  \<^verbatim>\<open>input[name="quantity"]\<close>. The handler reads the field's \<^verbatim>\<open>max\<close> and \<^verbatim>\<open>value\<close>, both
  strings, and may overwrite \<^verbatim>\<open>value\<close>. The second test reads the number parsed at
  the start, not the value just written.
\<close>

record quantityInput =
  inputMax :: string
  inputValue :: string

definition assignMax :: "int option \<Rightarrow> quantityInput \<Rightarrow> quantityInput" where
  "assignMax m inp =
     (case m of None \<Rightarrow> inp\<lparr>inputValue := ''NaN''\<rparr>
              | Some k \<Rightarrow> inp\<lparr>inputValue := numberToString k\<rparr>)"

definition onQuantityInput :: "quantityInput \<Rightarrow> quantityInput" where
  "onQuantityInput this =
     (let max = parseInt (inputMax this);
          value = parseInt (inputValue this);
          this1 = (if js_gt value max then assignMax max this else this);
          this2 = (if js_lt value (Some 1) then this1\<lparr>inputValue := ''1''\<rparr> else this1)
      in this2)"


section \<open>Market arithmetic\<close>

text \<open>
  The prices are JavaScript numbers: IEEE doubles with rounding, infinities and
  \<^verbatim>\<open>NaN\<close>. Their arithmetic belongs to the platform and is a parameter here: a type
  \<open>'n\<close> of numbers with the comparison \<^verbatim>\<open><=\<close>, the operations \<^verbatim>\<open>-\<close>, \<^verbatim>\<open>/\<close> and \<^verbatim>\<open>*\<close>, and the
  numbers that the literals of the script denote. Nothing is assumed of them, so what
  is proved holds of doubles as of any other arithmetic.
\<close>

record 'n arithmetic =
  numLessEq :: "'n \<Rightarrow> 'n \<Rightarrow> bool"
  numMinus :: "'n \<Rightarrow> 'n \<Rightarrow> 'n"
  numDivide :: "'n \<Rightarrow> 'n \<Rightarrow> 'n"
  numTimes :: "'n \<Rightarrow> 'n \<Rightarrow> 'n"
  numLiteral :: "int \<Rightarrow> 'n"

text \<open>
  \<^verbatim>\<open>calculateROI(buyPrice, sellPrice)\<close>. A division of JavaScript never throws, whatever
  the divisor. To make the divisions visible, the model returns next to the value the
  divisors of the divisions that were evaluated, in the order of evaluation.
\<close>

definition calculateROI :: "'n arithmetic \<Rightarrow> 'n \<Rightarrow> 'n \<Rightarrow> 'n \<times> 'n list" where
  "calculateROI A buyPrice sellPrice =
     (if numLessEq A buyPrice (numLiteral A 0) then (numLiteral A 0, [])
      else (numTimes A (numDivide A (numMinus A sellPrice buyPrice) buyPrice) (numLiteral A 100),
            [buyPrice]))"

definition calculateProfit :: "'n arithmetic \<Rightarrow> 'n \<Rightarrow> 'n \<Rightarrow> 'n \<Rightarrow> 'n" where
  "calculateProfit A buyPrice sellPrice quantity =
     numTimes A (numMinus A sellPrice buyPrice) quantity"

text \<open>An arithmetic for the examples: exact rational numbers, which are not doubles.\<close>

definition exactArithmetic :: "rat arithmetic" where
  "exactArithmetic =
     \<lparr>numLessEq = (\<lambda>a b. a \<le> b), numMinus = (\<lambda>a b. a - b), numDivide = (\<lambda>a b. a / b),
      numTimes = (\<lambda>a b. a * b), numLiteral = rat_of_int\<rparr>"


section \<open>An example page\<close>

text \<open>
  A dashboard with one element for each selector of the poller, two browsers that
  differ in the grouping separator of their locale, and a status payload of the
  documented shape next to one that lacks fields. The examples below are evaluated on them.
\<close>

definition enUS :: browser where
  "enUS = \<lparr>formatNumber = groupedDecimal '','', clock = 1000, clockText = ''12:00:00 PM''\<rparr>"

definition deDE :: browser where
  "deDE = \<lparr>formatNumber = groupedDecimal ''.'', clock = 1000, clockText = ''12:00:00''\<rparr>"

definition dashboard :: page where
  "dashboard =
     \<lparr>connectionStatus = JBool False,
      lastUpdateTime = 0,
      document =
        [\<lparr>classList = [''connection-indicator''], textContent = [], title = []\<rparr>,
         \<lparr>classList = [''player-info''], textContent = ''Alice'', title = []\<rparr>,
         \<lparr>classList = [''location-info''], textContent = ''Martlock'', title = []\<rparr>,
         \<lparr>classList = [''offers-count''], textContent = ''3'', title = []\<rparr>,
         \<lparr>classList = [''requests-count''], textContent = ''1,234'', title = []\<rparr>,
         \<lparr>classList = [''last-update-time''], textContent = [], title = []\<rparr>],
      timers = []\<rparr>"

text \<open>A payload that lacks both counters.\<close>

definition partialSnapshot :: jsval where
  "partialSnapshot =
     JObj [(''connection_established'', JBool True),
           (''current_player'', JStr ''Bob'')]"

definition snapshot :: jsval where
  "snapshot =
     JObj [(''connection_established'', JBool True),
           (''current_player'', JStr ''Bob''),
           (''current_location'', JStr ''Caerleon''),
           (''offers_count'', JNum 5),
           (''requests_count'', JNum 1234)]"


section \<open>Evaluation of the built-in functions\<close>

lemma digitOf_Char [js_eval]:
  "digitOf R (Char a b c d e f g h) =
     (case map_of
        [(CHR ''0'', 0), (CHR ''1'', 1), (CHR ''2'', 2), (CHR ''3'', 3), (CHR ''4'', 4),
         (CHR ''5'', 5), (CHR ''6'', 6), (CHR ''7'', 7), (CHR ''8'', 8), (CHR ''9'', 9),
         (CHR ''a'', 10), (CHR ''b'', 11), (CHR ''c'', 12), (CHR ''d'', 13), (CHR ''e'', 14),
         (CHR ''f'', 15), (CHR ''A'', 10), (CHR ''B'', 11), (CHR ''C'', 12), (CHR ''D'', 13),
         (CHR ''E'', 14), (CHR ''F'', 15)] (Char a b c d e f g h) of
        None \<Rightarrow> None
      | Some k \<Rightarrow> if k < R then Some k else None)"
  by (simp only: digitOf_def digitTable_def)

lemma isRadixDigit_Char [js_eval]:
  "isRadixDigit R (Char a b c d e f g h) = (digitOf R (Char a b c d e f g h) \<noteq> None)"
  by (simp only: isRadixDigit_def)

lemma isWhiteSpace_Char [js_eval]:
  "isWhiteSpace (Char a b c d e f g h) =
     (Char a b c d e f g h \<in>
        set [CHR 0x09, CHR 0x0A, CHR 0x0B, CHR 0x0C, CHR 0x0D, CHR 0x20, CHR 0xA0])"
  by (simp only: isWhiteSpace_def)

lemma mathInt_Nil [js_eval]: "mathInt R [] = 0"
  by (simp add: mathInt_def)

lemma mathInt_Cons [js_eval]:
  "mathInt R (Char a b c d e f g h # Z) =
     foldl (\<lambda>a c. a * R + the (digitOf R c)) 0 (Char a b c d e f g h # Z)"
  by (simp only: mathInt_def)

lemma mathInt_snoc: "mathInt R (Z @ [c]) = mathInt R Z * R + the (digitOf R c)"
  by (simp add: mathInt_def)

lemma parseInt_Nil [js_eval]: "parseInt [] = None"
  by (simp add: parseInt_def)

lemma parseInt_Cons [js_eval]:
  "parseInt (Char a b c d e f g h # s) =
     parseSigned (stripSign (dropWhile isWhiteSpace (Char a b c d e f g h # s)))"
  by (simp only: parseInt_def)

lemma digits_numeral [js_eval]:
  "digits (numeral k) =
     (if (numeral k :: nat) < 10 then [digitChar (numeral k)]
      else digits (numeral k div 10) @ [digitChar (numeral k mod 10)])"
  by (rule digits.simps)

lemma digits_0 [js_eval]: "digits 0 = ''0''"
  by (simp add: digits.simps [of 0] digitChar_def)

lemma digits_1 [js_eval]: "digits (Suc 0) = ''1''" "digits 1 = ''1''"
  by (simp_all add: digits.simps [of 1] digits.simps [of "Suc 0"] digitChar_def)

lemma digitChar_numeral [js_eval]:
  "digitChar (numeral k) = ''0123456789'' ! numeral k"
  "digitChar 0 = CHR ''0''" "digitChar 1 = CHR ''1''" "digitChar (Suc 0) = CHR ''1''"
  by (simp_all add: digitChar_def)


section \<open>Decimal numerals parse back\<close>

lemma isDecimal_digitChar: "d < 10 \<Longrightarrow> isDecimal (digitChar d)"
proof -
  assume "d < 10"
  then have "d \<in> {0, 1, 2, 3, 4, 5, 6, 7, 8, 9}" by auto
  then show ?thesis
    by (elim insertE emptyE) (simp_all add: isDecimal_def digitChar_def)
qed

lemma digitOf_digitChar: "d < 10 \<Longrightarrow> digitOf 10 (digitChar d) = Some d"
proof -
  assume "d < 10"
  then have "d \<in> {0, 1, 2, 3, 4, 5, 6, 7, 8, 9}" by auto
  then show ?thesis
    by (elim insertE emptyE) (simp_all add: digitOf_def digitChar_def digitTable_def)
qed

lemma isDecimal_cases:
  assumes "isDecimal c"
  shows "isRadixDigit 10 c" and "\<not> isWhiteSpace c" and "c \<noteq> CHR ''-''" and "c \<noteq> CHR ''+''"
    and "c \<noteq> CHR ''x''" and "c \<noteq> CHR ''X''" and "c \<noteq> CHR '',''"
proof -
  from assms have c: "c = CHR ''0'' \<or> c = CHR ''1'' \<or> c = CHR ''2'' \<or> c = CHR ''3''
      \<or> c = CHR ''4'' \<or> c = CHR ''5'' \<or> c = CHR ''6'' \<or> c = CHR ''7'' \<or> c = CHR ''8''
      \<or> c = CHR ''9''"
    by (simp add: isDecimal_def)
  from c show "isRadixDigit 10 c"
    by (elim disjE) (simp_all add: js_eval)
  from c show "\<not> isWhiteSpace c"
    by (elim disjE) (simp_all add: js_eval)
  from c show "c \<noteq> CHR ''-''" by auto
  from c show "c \<noteq> CHR ''+''" by auto
  from c show "c \<noteq> CHR ''x''" by auto
  from c show "c \<noteq> CHR ''X''" by auto
  from c show "c \<noteq> CHR '',''" by auto
qed

lemma digits_decimal: "c \<in> set (digits n) \<Longrightarrow> isDecimal c"
proof (induction n rule: digits.induct)
  case (1 n)
  show ?case
  proof (cases "n < 10")
    case True
    with "1.prems" show ?thesis
      by (simp add: digits.simps [of n] isDecimal_digitChar)
  next
    case False
    with "1.prems" have "c = digitChar (n mod 10) \<or> c \<in> set (digits (n div 10))"
      by (simp add: digits.simps [of n])
    then show ?thesis
    proof
      assume "c = digitChar (n mod 10)"
      then show ?thesis by (simp add: isDecimal_digitChar)
    next
      assume "c \<in> set (digits (n div 10))"
      with False "1.IH" show ?thesis by simp
    qed
  qed
qed

lemma digits_nonempty: "digits n \<noteq> []"
  by (subst digits.simps) simp

lemma mathInt_digits: "mathInt 10 (digits n) = n"
proof (induction n rule: digits.induct)
  case (1 n)
  show ?case
  proof (cases "n < 10")
    case True
    then show ?thesis
      by (simp add: digits.simps [of n] mathInt_def digitOf_digitChar)
  next
    case False
    with "1.IH" have "mathInt 10 (digits (n div 10)) = n div 10" by simp
    with False show ?thesis
      by (simp add: digits.simps [of n] mathInt_snoc digitOf_digitChar)
  qed
qed

lemma stripPrefix_decimal:
  assumes "\<forall>c\<in>set s. isDecimal c"
  shows "stripPrefix s = (10, s)"
proof (cases s rule: stripPrefix.cases)
  case (1 a b r)
  with assms have "isDecimal b" by simp
  then have "b \<noteq> CHR ''x''" and "b \<noteq> CHR ''X''"
    by (rule isDecimal_cases)+
  with 1 show ?thesis by simp
qed simp_all

lemma takeWhile_decimal:
  assumes "\<forall>c\<in>set s. isDecimal c"
  shows "takeWhile (isRadixDigit 10) s = s"
  using assms by (simp add: takeWhile_eq_all_conv isDecimal_cases(1))

lemma parseDigits_decimal:
  assumes "\<forall>c\<in>set s. isDecimal c" and "s \<noteq> []"
  shows "parseDigits sign (10, s) = Some (sign * int (mathInt 10 s))"
  using assms by (cases s) (simp_all add: takeWhile_decimal del: takeWhile.simps)

lemma parseInt_digits: "parseInt (digits n) = Some (int n)"
proof -
  have dec: "\<forall>c\<in>set (digits n). isDecimal c"
    by (simp add: digits_decimal)
  obtain c r where cr: "digits n = c # r"
    using digits_nonempty [of n] by (cases "digits n") auto
  with dec have c: "isDecimal c" by simp
  have "dropWhile isWhiteSpace (digits n) = digits n"
    using cr isDecimal_cases(2) [OF c] by simp
  moreover have "stripSign (digits n) = (1, digits n)"
    using cr isDecimal_cases(3,4) [OF c] by simp
  ultimately have "parseInt (digits n) = parseDigits 1 (stripPrefix (digits n))"
    by (simp add: parseInt_def)
  also have "\<dots> = parseDigits 1 (10, digits n)"
    by (simp only: stripPrefix_decimal [OF dec])
  also have "\<dots> = Some (int n)"
    by (simp add: parseDigits_decimal [OF dec digits_nonempty] mathInt_digits
        del: parseDigits.simps)
  finally show ?thesis .
qed

lemma parseInt_minus_digits: "parseInt (CHR ''-'' # digits n) = Some (- int n)"
proof -
  have dec: "\<forall>c\<in>set (digits n). isDecimal c"
    by (simp add: digits_decimal)
  have "parseInt (CHR ''-'' # digits n) = parseDigits (- 1) (stripPrefix (digits n))"
    by (simp add: parseInt_def js_eval)
  also have "\<dots> = parseDigits (- 1) (10, digits n)"
    by (simp only: stripPrefix_decimal [OF dec])
  also have "\<dots> = Some (- int n)"
    by (simp add: parseDigits_decimal [OF dec digits_nonempty] mathInt_digits
        del: parseDigits.simps)
  finally show ?thesis .
qed

lemma parseInt_numberToString: "parseInt (numberToString n) = Some n"
  by (simp add: numberToString_def parseInt_digits parseInt_minus_digits)


section \<open>Properties of the quantity handler\<close>

text \<open>
  Claim C9, as the code has it. The handler clamps a quantity that parses as a number:
  when the field's value parses to an integer and the declared maximum parses to an
  integer that is at least 1, the value of the field after the handler parses to an
  integer between 1 and that maximum. (The claim as written also promises this for
  input that does not parse; the example after the next shows that it fails there.)
\<close>

theorem quantity_clamped:
  assumes "parseInt (inputValue this) = Some v"
    and "parseInt (inputMax this) = Some m"
    and "1 \<le> m"
  shows "\<exists>n. parseInt (inputValue (onQuantityInput this)) = Some n \<and> 1 \<le> n \<and> n \<le> m"
proof -
  consider (above) "v > m" | (below) "v < 1" | (inside) "1 \<le> v" "v \<le> m"
    by linarith
  then show ?thesis
  proof cases
    case above
    with assms have "inputValue (onQuantityInput this) = numberToString m"
      by (simp add: onQuantityInput_def assignMax_def)
    with assms(3) show ?thesis
      by (simp add: parseInt_numberToString)
  next
    case below
    with assms have "inputValue (onQuantityInput this) = ''1''"
      by (simp add: onQuantityInput_def assignMax_def)
    with assms(3) show ?thesis
      by (simp add: js_eval)
  next
    case inside
    with assms have "inputValue (onQuantityInput this) = inputValue this"
      by (simp add: onQuantityInput_def)
    with assms inside show ?thesis by simp
  qed
qed

theorem quantity_clamped_witness:
  "parseInt (inputValue (onQuantityInput \<lparr>inputMax = ''10'', inputValue = ''250''\<rparr>)) = Some 10"
proof -
  have v: "parseInt (inputValue \<lparr>inputMax = ''10'', inputValue = ''250''\<rparr>) = Some 250"
    by (simp add: js_eval)
  have m: "parseInt (inputMax \<lparr>inputMax = ''10'', inputValue = ''250''\<rparr>) = Some 10"
    by (simp add: js_eval)
  have "\<exists>n. parseInt (inputValue (onQuantityInput \<lparr>inputMax = ''10'', inputValue = ''250''\<rparr>))
          = Some n \<and> 1 \<le> n \<and> n \<le> 10"
    using quantity_clamped [OF v m] by simp
  moreover have "inputValue (onQuantityInput \<lparr>inputMax = ''10'', inputValue = ''250''\<rparr>) = ''10''"
    by (simp add: onQuantityInput_def assignMax_def numberToString_def js_eval)
  ultimately show ?thesis by (simp add: js_eval)
qed

text \<open>
  The claim C9 as written fails on input that is not a number: \<^verbatim>\<open>parseInt("abc")\<close> is
  \<^verbatim>\<open>NaN\<close>, both comparisons are false and the field keeps its text, which still does
  not parse.
\<close>

theorem quantity_not_numeric_unclamped:
  "onQuantityInput \<lparr>inputMax = ''10'', inputValue = ''abc''\<rparr>
     = \<lparr>inputMax = ''10'', inputValue = ''abc''\<rparr>
   \<and> parseInt (inputValue (onQuantityInput \<lparr>inputMax = ''10'', inputValue = ''abc''\<rparr>)) = None"
  by (simp add: onQuantityInput_def js_eval)


section \<open>Properties of the market arithmetic\<close>

text \<open>
  Claim C10. Whenever \<^verbatim>\<open>buyPrice <= 0\<close> holds, \<^verbatim>\<open>calculateROI\<close> returns 0 and evaluates no
  division. Otherwise it returns \<^verbatim>\<open>((sellPrice - buyPrice) / buyPrice) * 100\<close>, with the one
  division by the buy price. In both cases no division it evaluates has a divisor
  \<open>d\<close> with \<^verbatim>\<open>d <= 0\<close>: the division is guarded. This holds in every arithmetic.
\<close>

theorem calculateROI_guarded:
  "(numLessEq A buyPrice (numLiteral A 0) \<longrightarrow>
      calculateROI A buyPrice sellPrice = (numLiteral A 0, [])) \<and>
   (\<not> numLessEq A buyPrice (numLiteral A 0) \<longrightarrow>
      calculateROI A buyPrice sellPrice =
        (numTimes A (numDivide A (numMinus A sellPrice buyPrice) buyPrice) (numLiteral A 100),
         [buyPrice])) \<and>
   (\<forall>d\<in>set (snd (calculateROI A buyPrice sellPrice)). \<not> numLessEq A d (numLiteral A 0))"
  by (simp add: calculateROI_def)

text \<open>
  Claim C10 at concrete inputs, in exact arithmetic: buy prices 0 and -4 give 0 with no
  division, buy price 40 and sell price 50 give 25 with one division by 40.
\<close>

theorem calculateROI_guarded_witness:
  "numLessEq exactArithmetic 0 (numLiteral exactArithmetic 0) \<and>
   calculateROI exactArithmetic 0 50 = (0, []) \<and>
   numLessEq exactArithmetic (- 4) (numLiteral exactArithmetic 0) \<and>
   calculateROI exactArithmetic (- 4) 50 = (0, []) \<and>
   \<not> numLessEq exactArithmetic 40 (numLiteral exactArithmetic 0) \<and>
   calculateROI exactArithmetic 40 50 = (25, [40])"
proof -
  have a: "numLessEq exactArithmetic 0 (numLiteral exactArithmetic 0)"
    and b: "numLessEq exactArithmetic (- 4) (numLiteral exactArithmetic 0)"
    and c: "\<not> numLessEq exactArithmetic 40 (numLiteral exactArithmetic 0)"
    by (simp_all add: exactArithmetic_def)
  have z: "numLiteral exactArithmetic 0 = 0"
    and v: "numTimes exactArithmetic
              (numDivide exactArithmetic (numMinus exactArithmetic 50 40) 40)
              (numLiteral exactArithmetic 100) = 25"
    by (simp_all add: exactArithmetic_def)
  from calculateROI_guarded [of exactArithmetic 0 50] a
  have "calculateROI exactArithmetic 0 50 = (numLiteral exactArithmetic 0, [])" by blast
  then have r1: "calculateROI exactArithmetic 0 50 = (0, [])" by (simp only: z)
  from calculateROI_guarded [of exactArithmetic "- 4" 50] b
  have "calculateROI exactArithmetic (- 4) 50 = (numLiteral exactArithmetic 0, [])" by blast
  then have r2: "calculateROI exactArithmetic (- 4) 50 = (0, [])" by (simp only: z)
  from calculateROI_guarded [of exactArithmetic 40 50] c
  have "calculateROI exactArithmetic 40 50 =
        (numTimes exactArithmetic
           (numDivide exactArithmetic (numMinus exactArithmetic 50 40) 40)
           (numLiteral exactArithmetic 100), [40])" by blast
  then have r3: "calculateROI exactArithmetic 40 50 = (25, [40])" by (simp only: v)
  from a r1 b r2 c r3 show ?thesis by blast
qed


section \<open>Evaluation of the page functions\<close>

lemma groupDigits_numeral [js_eval]:
  "groupDigits sep (numeral k) =
     (if (numeral k :: nat) < 1000 then digits (numeral k)
      else groupDigits sep (numeral k div 1000) @ sep @ pad3 (numeral k mod 1000))"
  by (rule groupDigits.simps)

lemma groupDigits_small [js_eval]:
  "groupDigits sep 0 = ''0''" "groupDigits sep 1 = ''1''" "groupDigits sep (Suc 0) = ''1''"
  by (simp_all add: groupDigits.simps [of _ 0] groupDigits.simps [of _ 1]
      groupDigits.simps [of _ "Suc 0"] js_eval)

lemma currentValue_Cons [js_eval]:
  "currentValue (Char a b c d e f g h # s) =
     (case parseInt (replaceAll (CHR '','') [] (Char a b c d e f g h # s)) of
        None \<Rightarrow> 0 | Some n \<Rightarrow> n)"
  "currentValue [] = 0"
  by (simp_all add: currentValue_def js_eval)

lemmas page_eval =
  refreshData_def onRejected_def updateStatus_def updateConnectionIndicator_def setIndicator_def
  updateText_def andThen_def propOf_def updateLastUpdateTime_def updateCountWithAnimation_def
  groupedDecimal_def numberToString_def pad3_def classListAdd_def
  setTextContent_def



section \<open>Grouped digits parse back\<close>

lemma replaceAll_empty: "replaceAll c [] s = filter (\<lambda>x. x \<noteq> c) s"
  by (induction s) simp_all

lemma digits_thousand:
  assumes "1000 \<le> n"
  shows "digits n = digits (n div 1000) @ pad3 (n mod 1000)"
proof -
  have a: "digits n = digits (n div 10) @ [digitChar (n mod 10)]"
    using assms by (subst digits.simps) simp
  have b: "digits (n div 10) = digits (n div 100) @ [digitChar (n div 10 mod 10)]"
    using assms by (subst digits.simps) (simp add: div_mult2_eq [symmetric])
  have c: "digits (n div 100) = digits (n div 1000) @ [digitChar (n div 100 mod 10)]"
    using assms by (subst digits.simps) (simp add: div_mult2_eq [symmetric])
  have d1: "n mod 1000 div 100 = n div 100 mod 10"
  proof -
    have "n mod (100 * 10) = 100 * (n div 100 mod 10) + n mod 100"
      by (rule mod_mult2_eq)
    then show ?thesis by simp
  qed
  have d2: "n mod 1000 div 10 mod 10 = n div 10 mod 10"
  proof -
    have "n mod (10 * 100) = 10 * (n div 10 mod 100) + n mod 10"
      by (rule mod_mult2_eq)
    then have "n mod 1000 div 10 = n div 10 mod 100" by simp
    moreover have "n div 10 mod 100 mod 10 = n div 10 mod 10"
      by (simp add: mod_mod_cancel)
    ultimately show ?thesis by simp
  qed
  have d3: "n mod 1000 mod 10 = n mod 10"
    by (simp add: mod_mod_cancel)
  show ?thesis
    by (simp add: a b c pad3_def d1 d2 d3)
qed

lemma pad3_decimal: "m < 1000 \<Longrightarrow> c \<in> set (pad3 m) \<Longrightarrow> isDecimal c"
  by (auto simp: pad3_def intro!: isDecimal_digitChar)

lemma filter_decimal:
  assumes "\<forall>c\<in>set s. isDecimal c"
  shows "filter (\<lambda>x. x \<noteq> CHR '','') s = s"
  using assms by (simp add: filter_id_conv isDecimal_cases(7))

lemma strip_groupDigits:
  "filter (\<lambda>x. x \<noteq> CHR '','') (groupDigits '','' n) = digits n"
proof (induction "'',''" n rule: groupDigits.induct)
  case (1 n)
  show ?case
  proof (cases "n < 1000")
    case True
    then show ?thesis
      by (simp add: groupDigits.simps [of _ n] filter_decimal digits_decimal)
  next
    case False
    then have ih: "filter (\<lambda>x. x \<noteq> CHR '','') (groupDigits '','' (n div 1000)) = digits (n div 1000)"
      using "1.hyps" by simp
    have "filter (\<lambda>x. x \<noteq> CHR '','') (pad3 (n mod 1000)) = pad3 (n mod 1000)"
      by (rule filter_decimal) (auto intro: pad3_decimal [of "n mod 1000"])
    with False ih show ?thesis
      by (simp add: groupDigits.simps [of _ n] digits_thousand)
  qed
qed

lemma querySelector_Some:
  "querySelector c d = Some i \<Longrightarrow> i < length d \<and> c \<in> set (classList (d ! i))"
proof (induction d arbitrary: i)
  case Nil
  then show ?case by simp
next
  case (Cons e es)
  then show ?case by (auto split: if_splits)
qed

lemma querySelector_update:
  "querySelector c d = Some i \<Longrightarrow> c \<in> set (classList e') \<Longrightarrow> querySelector c (d[i := e']) = Some i"
proof (induction d arbitrary: i)
  case Nil
  then show ?case by simp
next
  case (Cons e es)
  then show ?case by (auto split: if_splits)
qed

lemma classListAdd_keeps: "c \<in> set (classList e) \<Longrightarrow> c \<in> set (classList (classListAdd x e))"
  by (simp add: classListAdd_def)



section \<open>Properties of the counters\<close>

lemma groupedDecimal_comma:
  "replaceAll (CHR '','') [] (groupedDecimal '','' v) = numberToString v"
  by (simp add: groupedDecimal_def numberToString_def replaceAll_empty strip_groupDigits)

lemma currentValue_plain:
  "replaceAll (CHR '','') [] shown = numberToString v \<Longrightarrow> currentValue shown = v"
  by (simp add: currentValue_def parseInt_numberToString)

text \<open>
  Claim C3, as the code has it. Let the locale print the counter value \<open>v\<close> as its
  plain decimal numeral (ASCII digits, after an ASCII minus sign when negative) with
  nothing but commas added, as \<^verbatim>\<open>en-US\<close> does. Then the text that
  \<^verbatim>\<open>updateCountWithAnimation\<close> leaves in the counter element parses back, by the rule of
  the function itself (\<open>currentValue\<close>: strip the commas, \<^verbatim>\<open>parseInt\<close>, 0 by default), to
  \<open>v\<close>. The step throws nothing and the selector still finds the same element.
\<close>

theorem counter_roundtrip:
  assumes "replaceAll (CHR '','') [] (formatNumber env v) = numberToString v"
    and "querySelector selector (document s) = Some i"
  shows "fst (updateCountWithAnimation env selector (JNum v) s) = None \<and>
         querySelector selector (document (snd (updateCountWithAnimation env selector (JNum v) s)))
           = Some i \<and>
         currentValue
           (textContent (document (snd (updateCountWithAnimation env selector (JNum v) s)) ! i))
           = v"
proof (cases "currentValue (textContent (document s ! i)) = v")
  case True
  with assms show ?thesis
    by (simp add: updateCountWithAnimation_def)
next
  case False
  from assms(2) have i: "i < length (document s)"
    and c: "selector \<in> set (classList (document s ! i))"
    by (simp_all add: querySelector_Some)
  let ?e = "(classListAdd ''fade-in'' (document s ! i))\<lparr>textContent := formatNumber env v\<rparr>"
  have upd: "updateCountWithAnimation env selector (JNum v) s =
      (None, s\<lparr>document := (document s)[i := ?e], timers := timers s @ [i]\<rparr>)"
    using False assms(2) i
    by (simp add: updateCountWithAnimation_def setTextContent_def Let_def)
  have "selector \<in> set (classList ?e)"
    using c by (simp add: classListAdd_keeps)
  with assms(2) have "querySelector selector ((document s)[i := ?e]) = Some i"
    by (rule querySelector_update)
  with i show ?thesis
    by (simp add: upd currentValue_plain [OF assms(1)])
qed

text \<open>
  Claim C3 at a concrete input: in a browser with the format of \<^verbatim>\<open>en-US\<close>, 1234567 is
  shown as \<^verbatim>\<open>1,234,567\<close> and read back as 1234567.
\<close>

theorem counter_roundtrip_witness:
  "replaceAll (CHR '','') [] (formatNumber enUS 1234567) = numberToString 1234567 \<and>
   querySelector ''offers-count'' (document dashboard) = Some 3 \<and>
   textContent
     (document (snd (updateCountWithAnimation enUS ''offers-count'' (JNum 1234567) dashboard)) ! 3)
     = ''1,234,567'' \<and>
   currentValue
     (textContent
        (document (snd (updateCountWithAnimation enUS ''offers-count'' (JNum 1234567) dashboard)) ! 3))
     = 1234567"
proof -
  have fmt: "replaceAll (CHR '','') [] (formatNumber enUS 1234567) = numberToString 1234567"
    by (simp add: enUS_def groupedDecimal_comma)
  have q: "querySelector ''offers-count'' (document dashboard) = Some 3"
    by (simp add: dashboard_def)
  have t: "textContent
      (document (snd (updateCountWithAnimation enUS ''offers-count'' (JNum 1234567) dashboard)) ! 3)
     = ''1,234,567''"
    by (simp add: page_eval dashboard_def enUS_def js_eval)
  from counter_roundtrip [OF fmt q] fmt q t
  show ?thesis by simp
qed

text \<open>
  Claim C3 as stated, for whatever the locale prints, fails: the format of \<^verbatim>\<open>de-DE\<close>
  shows the value 1234 as \<^verbatim>\<open>1.234\<close>, no comma is stripped, and \<^verbatim>\<open>parseInt\<close> stops at the
  point and reads 1.
\<close>

theorem counter_roundtrip_fails_other_separator:
  "formatNumber deDE 1234 = ''1.234'' \<and>
   querySelector ''offers-count'' (document dashboard) = Some 3 \<and>
   textContent
     (document (snd (updateCountWithAnimation deDE ''offers-count'' (JNum 1234) dashboard)) ! 3)
     = ''1.234'' \<and>
   currentValue
     (textContent
        (document (snd (updateCountWithAnimation deDE ''offers-count'' (JNum 1234) dashboard)) ! 3))
     = 1"
  by (simp add: page_eval dashboard_def deDE_def js_eval)

text \<open>
  Claim C4. When the counter value of the snapshot equals the value parsed from the
  text of the counter element, \<^verbatim>\<open>updateCountWithAnimation\<close> returns the page as it
  was: the text and the class list of the element are not written, no class
  \<^verbatim>\<open>fade-in\<close> is added, no timer is started, and nothing is thrown.
\<close>

theorem counter_unchanged_no_write:
  assumes "querySelector selector (document s) = Some i"
    and "currentValue (textContent (document s ! i)) = v"
  shows "updateCountWithAnimation env selector (JNum v) s = (None, s)"
  using assms by (simp add: updateCountWithAnimation_def)

text \<open>Claim C4 at a concrete input: the requests counter shows \<^verbatim>\<open>1,234\<close> and receives 1234.\<close>

theorem counter_unchanged_no_write_witness:
  "querySelector ''requests-count'' (document dashboard) = Some 4 \<and>
   currentValue (textContent (document dashboard ! 4)) = 1234 \<and>
   updateCountWithAnimation enUS ''requests-count'' (JNum 1234) dashboard = (None, dashboard)"
proof -
  have q: "querySelector ''requests-count'' (document dashboard) = Some 4"
    by (simp add: dashboard_def)
  have v: "currentValue (textContent (document dashboard ! 4)) = 1234"
    by (simp add: dashboard_def js_eval)
  from counter_unchanged_no_write [OF q v, of enUS] q v
  show ?thesis by simp
qed


section \<open>Properties of the poller\<close>

lemma onRejected_effect:
  "connectionStatus (onRejected s) = JBool False \<and>
   lastUpdateTime (onRejected s) = lastUpdateTime s \<and>
   timers (onRejected s) = timers s \<and>
   length (document (onRejected s)) = length (document s) \<and>
   (\<forall>i<length (document s).
      textContent (document (onRejected s) ! i) = textContent (document s ! i) \<and>
      (if ''connection-indicator'' \<in> set (classList (document s ! i))
       then classList (document (onRejected s) ! i) =
              [''connection-indicator'', ''fas'', ''fa-circle'', ''text-danger''] \<and>
            title (document (onRejected s) ! i) = ''Disconnected''
       else document (onRejected s) ! i = document s ! i))"
  by (simp add: onRejected_def updateConnectionIndicator_def setIndicator_def)

lemma onRejected_indicators:
  assumes "e \<in> set (document (onRejected s))"
    and "''connection-indicator'' \<in> set (classList e)"
  shows "classList e = [''connection-indicator'', ''fas'', ''fa-circle'', ''text-danger''] \<and>
         title e = ''Disconnected''"
proof -
  from assms(1) obtain e0 where e0: "e0 \<in> set (document s)"
    and e: "e = (if ''connection-indicator'' \<in> set (classList e0)
                 then setIndicator (JBool False) e0 else e0)"
    by (auto simp: onRejected_def updateConnectionIndicator_def)
  show ?thesis
  proof (cases "''connection-indicator'' \<in> set (classList e0)")
    case True
    with e show ?thesis by (simp add: setIndicator_def)
  next
    case False
    with e assms(2) show ?thesis by simp
  qed
qed

lemma chainRejects_onRejected:
  assumes "chainRejects env r s"
  shows "\<exists>s1. refreshData env r s = onRejected s1"
proof (cases r)
  case NetworkError
  then have "refreshData env r s = onRejected s" by (simp add: refreshData_def)
  then show ?thesis ..
next
  case (Response status body)
  show ?thesis
  proof (cases body)
    case None
    with Response have "refreshData env r s = onRejected s" by (simp add: refreshData_def)
    then show ?thesis ..
  next
    case (Some data)
    obtain err s1 where u: "updateStatus env data s = (err, s1)"
      by (cases "updateStatus env data s")
    with assms Response Some obtain e where "err = Some e"
      by (auto simp: chainRejects_def)
    with u Response Some have "refreshData env r s = onRejected s1"
      by (simp add: refreshData_def)
    then show ?thesis ..
  qed
qed

text \<open>
  Claim C1, as the code has it. Whenever the promise chain of a poll rejects,
  \<^verbatim>\<open>refreshData\<close> sets \<^verbatim>\<open>connectionStatus\<close> to \<^verbatim>\<open>false\<close> and every connection indicator
  of the page has the class and title of the disconnected state. When the rejection
  comes from \<^verbatim>\<open>fetch\<close> or from parsing the body, nothing else is touched: no text of
  any element changes, so the counter, player and location fields show what they
  showed; an element that is not an indicator is left as it was, and so are the time
  of the last update and the timers.
\<close>

theorem poll_failure_touches_only_connection:
  assumes "chainRejects env r s"
  shows "connectionStatus (refreshData env r s) = JBool False \<and>
         (\<forall>e\<in>set (document (refreshData env r s)).
            ''connection-indicator'' \<in> set (classList e) \<longrightarrow>
            classList e = [''connection-indicator'', ''fas'', ''fa-circle'', ''text-danger''] \<and>
            title e = ''Disconnected'') \<and>
         (r = NetworkError \<or> r = Response status None \<longrightarrow>
            lastUpdateTime (refreshData env r s) = lastUpdateTime s \<and>
            timers (refreshData env r s) = timers s \<and>
            length (document (refreshData env r s)) = length (document s) \<and>
            (\<forall>i<length (document s).
               textContent (document (refreshData env r s) ! i) = textContent (document s ! i) \<and>
               (if ''connection-indicator'' \<in> set (classList (document s ! i))
                then classList (document (refreshData env r s) ! i) =
                       [''connection-indicator'', ''fas'', ''fa-circle'', ''text-danger''] \<and>
                     title (document (refreshData env r s) ! i) = ''Disconnected''
                else document (refreshData env r s) ! i = document s ! i)))"
proof -
  from chainRejects_onRejected [OF assms] obtain s1 where
    s1: "refreshData env r s = onRejected s1" ..
  have flag: "connectionStatus (refreshData env r s) = JBool False"
    unfolding s1 by (simp add: onRejected_effect)
  have ind: "\<forall>e\<in>set (document (refreshData env r s)).
            ''connection-indicator'' \<in> set (classList e) \<longrightarrow>
            classList e = [''connection-indicator'', ''fas'', ''fa-circle'', ''text-danger''] \<and>
            title e = ''Disconnected''"
    unfolding s1 using onRejected_indicators [of _ s1] by blast
  have frame: "r = NetworkError \<or> r = Response status None \<longrightarrow>
            lastUpdateTime (refreshData env r s) = lastUpdateTime s \<and>
            timers (refreshData env r s) = timers s \<and>
            length (document (refreshData env r s)) = length (document s) \<and>
            (\<forall>i<length (document s).
               textContent (document (refreshData env r s) ! i) = textContent (document s ! i) \<and>
               (if ''connection-indicator'' \<in> set (classList (document s ! i))
                then classList (document (refreshData env r s) ! i) =
                       [''connection-indicator'', ''fas'', ''fa-circle'', ''text-danger''] \<and>
                     title (document (refreshData env r s) ! i) = ''Disconnected''
                else document (refreshData env r s) ! i = document s ! i))"
  proof
    assume "r = NetworkError \<or> r = Response status None"
    then have "refreshData env r s = onRejected s"
      by (auto simp: refreshData_def)
    then show "lastUpdateTime (refreshData env r s) = lastUpdateTime s \<and>
            timers (refreshData env r s) = timers s \<and>
            length (document (refreshData env r s)) = length (document s) \<and>
            (\<forall>i<length (document s).
               textContent (document (refreshData env r s) ! i) = textContent (document s ! i) \<and>
               (if ''connection-indicator'' \<in> set (classList (document s ! i))
                then classList (document (refreshData env r s) ! i) =
                       [''connection-indicator'', ''fas'', ''fa-circle'', ''text-danger''] \<and>
                     title (document (refreshData env r s) ! i) = ''Disconnected''
                else document (refreshData env r s) ! i = document s ! i))"
      using onRejected_effect [of s] by simp
  qed
  from flag ind frame show ?thesis by blast
qed

text \<open>
  Claim C1, as the code has it, at two concrete inputs: a network error on the example
  page, shown connected, and a payload on which the render step throws.
\<close>

theorem poll_failure_touches_only_connection_witness:
  "chainRejects enUS NetworkError (dashboard\<lparr>connectionStatus := JBool True\<rparr>) \<and>
   refreshData enUS NetworkError (dashboard\<lparr>connectionStatus := JBool True\<rparr>) =
     dashboard\<lparr>document := (document dashboard)
       [0 := \<lparr>classList = [''connection-indicator'', ''fas'', ''fa-circle'', ''text-danger''],
              textContent = [], title = ''Disconnected''\<rparr>]\<rparr> \<and>
   chainRejects enUS (Response 200 (Some partialSnapshot)) dashboard \<and>
   connectionStatus (refreshData enUS (Response 200 (Some partialSnapshot)) dashboard)
     = JBool False"
proof -
  let ?s = "dashboard\<lparr>connectionStatus := JBool True\<rparr>"
  have rej: "chainRejects enUS NetworkError ?s"
    by (simp add: chainRejects_def)
  from poll_failure_touches_only_connection [OF rej, of 0]
  have "connectionStatus (refreshData enUS NetworkError ?s) = JBool False" by blast
  moreover have "refreshData enUS NetworkError ?s =
      ?s\<lparr>connectionStatus := JBool False, document := (document dashboard)
       [0 := \<lparr>classList = [''connection-indicator'', ''fas'', ''fa-circle'', ''text-danger''],
              textContent = [], title = ''Disconnected''\<rparr>]\<rparr>"
    by (simp add: page_eval dashboard_def)
  ultimately have a: "refreshData enUS NetworkError ?s =
     dashboard\<lparr>document := (document dashboard)
       [0 := \<lparr>classList = [''connection-indicator'', ''fas'', ''fa-circle'', ''text-danger''],
              textContent = [], title = ''Disconnected''\<rparr>]\<rparr>"
    by (simp add: dashboard_def)
  have rej2: "chainRejects enUS (Response 200 (Some partialSnapshot)) dashboard"
    by (simp add: chainRejects_def page_eval partialSnapshot_def dashboard_def enUS_def js_eval)
  from poll_failure_touches_only_connection [OF rej2, of 0]
  have b: "connectionStatus (refreshData enUS (Response 200 (Some partialSnapshot)) dashboard)
     = JBool False" by blast
  from rej a rej2 b show ?thesis by blast
qed

text \<open>
  Claim C1 as stated, for every rejection of the chain, fails when the render step is
  what throws. On a response with status 200 whose payload has the connection flag
  and a player but no counter, \<^verbatim>\<open>updateStatus\<close> writes the player, adds \<^verbatim>\<open>fade-in\<close> to the
  offers counter and then throws on \<^verbatim>\<open>undefined.toLocaleString()\<close>: the chain rejects
  with the player field changed from \<^verbatim>\<open>Alice\<close> to \<^verbatim>\<open>Bob\<close> and the class list of the
  counter changed, and no timer is left to remove the class.
\<close>

theorem render_rejection_after_partial_update:
  "chainRejects enUS (Response 200 (Some partialSnapshot)) dashboard \<and>
   textContent (document dashboard ! 1) = ''Alice'' \<and>
   textContent (document (refreshData enUS (Response 200 (Some partialSnapshot)) dashboard) ! 1)
     = ''Bob'' \<and>
   classList (document dashboard ! 3) = [''offers-count''] \<and>
   classList (document (refreshData enUS (Response 200 (Some partialSnapshot)) dashboard) ! 3)
     = [''offers-count'', ''fade-in''] \<and>
   timers (refreshData enUS (Response 200 (Some partialSnapshot)) dashboard) = []"
  by (simp add: chainRejects_def page_eval partialSnapshot_def dashboard_def enUS_def js_eval)

text \<open>
  Claim C2, as the code has it. \<^verbatim>\<open>refreshData\<close> never reads the status of the response:
  a response with a status outside 200..299 is handled exactly as a response with
  status 200 and the same body. It is a failure when the body fails to parse as JSON;
  then the connection flag is set to \<^verbatim>\<open>false\<close>, the indicators are updated and nothing
  else is altered.
\<close>

theorem status_code_never_read:
  assumes "status < 200 \<or> 300 \<le> status"
  shows "refreshData env (Response status body) s = refreshData env (Response 200 body) s \<and>
         (body = None \<longrightarrow>
            connectionStatus (refreshData env (Response status body) s) = JBool False \<and>
            lastUpdateTime (refreshData env (Response status body) s) = lastUpdateTime s \<and>
            timers (refreshData env (Response status body) s) = timers s \<and>
            length (document (refreshData env (Response status body) s)) = length (document s) \<and>
            (\<forall>i<length (document s).
               textContent (document (refreshData env (Response status body) s) ! i)
                 = textContent (document s ! i) \<and>
               (if ''connection-indicator'' \<in> set (classList (document s ! i))
                then classList (document (refreshData env (Response status body) s) ! i) =
                       [''connection-indicator'', ''fas'', ''fa-circle'', ''text-danger''] \<and>
                     title (document (refreshData env (Response status body) s) ! i) = ''Disconnected''
                else document (refreshData env (Response status body) s) ! i = document s ! i)))"
proof (rule conjI)
  show "refreshData env (Response status body) s = refreshData env (Response 200 body) s"
    by (simp add: refreshData_def)
next
  have "body = None \<Longrightarrow> refreshData env (Response status body) s = onRejected s"
    by (simp add: refreshData_def)
  then show "body = None \<longrightarrow>
            connectionStatus (refreshData env (Response status body) s) = JBool False \<and>
            lastUpdateTime (refreshData env (Response status body) s) = lastUpdateTime s \<and>
            timers (refreshData env (Response status body) s) = timers s \<and>
            length (document (refreshData env (Response status body) s)) = length (document s) \<and>
            (\<forall>i<length (document s).
               textContent (document (refreshData env (Response status body) s) ! i)
                 = textContent (document s ! i) \<and>
               (if ''connection-indicator'' \<in> set (classList (document s ! i))
                then classList (document (refreshData env (Response status body) s) ! i) =
                       [''connection-indicator'', ''fas'', ''fa-circle'', ''text-danger''] \<and>
                     title (document (refreshData env (Response status body) s) ! i) = ''Disconnected''
                else document (refreshData env (Response status body) s) ! i = document s ! i))"
    using onRejected_effect [of s] by simp
qed

text \<open>Claim C2, as the code has it, at a concrete input: status 502 with a body that is not JSON.\<close>

theorem status_code_never_read_witness:
  "refreshData enUS (Response 502 None) (dashboard\<lparr>connectionStatus := JBool True\<rparr>) =
     refreshData enUS (Response 200 None) (dashboard\<lparr>connectionStatus := JBool True\<rparr>) \<and>
   connectionStatus
     (refreshData enUS (Response 502 None) (dashboard\<lparr>connectionStatus := JBool True\<rparr>))
     = JBool False \<and>
   textContent
     (document (refreshData enUS (Response 502 None) (dashboard\<lparr>connectionStatus := JBool True\<rparr>)) ! 1)
     = ''Alice''"
proof -
  have st: "(502 :: nat) < 200 \<or> (300 :: nat) \<le> 502" by simp
  have len: "(1 :: nat) < length (document (dashboard\<lparr>connectionStatus := JBool True\<rparr>))"
    by (simp add: dashboard_def)
  have t: "textContent (document (dashboard\<lparr>connectionStatus := JBool True\<rparr>) ! 1) = ''Alice''"
    by (simp add: dashboard_def)
  from status_code_never_read [OF st, of enUS None "dashboard\<lparr>connectionStatus := JBool True\<rparr>"]
    len t
  show ?thesis by auto
qed

text \<open>
  Claim C2 as stated fails: a response with status 500 whose body is a status payload
  is rendered. The connection flag becomes \<^verbatim>\<open>true\<close>, the player field changes from
  \<^verbatim>\<open>Alice\<close> to \<^verbatim>\<open>Bob\<close> and the offers counter from 3 to 5.
\<close>

theorem non_2xx_response_rendered:
  "connectionStatus (refreshData enUS (Response 500 (Some snapshot)) dashboard) = JBool True \<and>
   textContent (document dashboard ! 1) = ''Alice'' \<and>
   textContent (document (refreshData enUS (Response 500 (Some snapshot)) dashboard) ! 1) = ''Bob'' \<and>
   textContent (document dashboard ! 3) = ''3'' \<and>
   textContent (document (refreshData enUS (Response 500 (Some snapshot)) dashboard) ! 3) = ''5''"
  by (simp add: page_eval snapshot_def dashboard_def enUS_def js_eval)

section \<open>Evaluation of the table functions\<close>

lemma trim_Cons [js_eval]:
  "trim (Char a b c d e f g h # s) =
     rev (dropWhile isWhiteSpace (rev (dropWhile isWhiteSpace (Char a b c d e f g h # s))))"
  "trim [] = []"
  by (simp_all add: trim_def)

lemma isUpperCase_Char [js_eval]:
  "isUpperCase (Char b0 b1 b2 b3 b4 b5 b6 b7) =
     (let n = (of_char (Char b0 b1 b2 b3 b4 b5 b6 b7) :: nat)
      in (65 \<le> n \<and> n \<le> 90) \<or> (192 \<le> n \<and> n \<le> 222 \<and> n \<noteq> 215))"
  by (simp only: isUpperCase_def)

lemma isDecimal_Char [js_eval]:
  "isDecimal (Char a b c d e f g h) = (Char a b c d e f g h \<in> set ''0123456789'')"
  by (simp only: isDecimal_def)

lemma parseFloat_Cons [js_eval]:
  "parseFloat (Char a b c d e f g h # s) =
     parseDecimal (stripSign (dropWhile isWhiteSpace (Char a b c d e f g h # s)))"
  "parseFloat [] = None"
  by (simp_all add: parseFloat_def)

lemma numericChars_Cons [js_eval]:
  "numericChars (Char a b c d e f g h # s) =
     filter (\<lambda>c. isDecimal c \<or> c = CHR ''.'' \<or> c = CHR ''-'') (Char a b c d e f g h # s)"
  "numericChars [] = []"
  by (simp_all add: numericChars_def)

lemmas table_eval =
  sortTable_def compareRows_def comparison_def cellValue_def newDir_def currentDir_def markHeader_def
  filterTable_def filterRow_def toLowerCase_def exportTableToCSV_def allRows_def csvField_def
  numberToString_def textCell_def


section \<open>Properties of the CSV export\<close>

lemma replaceAll_concat:
  "replaceAll c r s = concat (map (\<lambda>x. if x = c then r else [x]) s)"
  by (induction s) simp_all

lemma join_separatedBy: "join sep xs = separatedBy sep xs"
proof (induction sep xs rule: join.induct)
  case (3 sep x y ys)
  then show ?case by (simp add: separatedBy_def)
qed (simp_all add: separatedBy_def)

lemma csvField_escaped: "csvField content = csvEscaped (trim content)"
  by (simp add: csvField_def csvEscaped_def replaceAll_concat Let_def)

text \<open>
  Claim C6. The export writes the trimmed text of a cell unchanged unless it holds a
  comma or a double quote; then it writes it between double quotes, with every double
  quote of the text doubled (\<open>csvEscaped\<close>). The fields of a row stand with a comma
  between neighbours, the rows of the table with a line feed between neighbours
  (\<open>separatedBy\<close>), for all the rows of the table in document order.
\<close>

theorem csv_export_quotes_and_joins:
  "csvField content = csvEscaped (trim content) \<and>
   (doc tableId = Some t \<longrightarrow>
      map_option fileContent (exportTableToCSV doc tableId filename) =
        Some (separatedBy [CHR 0x0A]
               (map (\<lambda>r. separatedBy '','' (map (\<lambda>c. csvEscaped (trim (cellText c))) (cells r)))
                  (allRows t))))"
  by (simp add: csvField_escaped exportTableToCSV_def join_separatedBy Let_def)

text \<open>
  Claim C6 at a concrete input: a price with a comma, a name with a comma, and a name
  with double quotes.
\<close>

theorem csv_export_quotes_and_joins_witness:
  "tablesOfPage ''market'' = Some market \<and>
   map_option fileContent (exportTableToCSV tablesOfPage ''market'' None) =
     Some (''Item,Price'' @ [CHR 0x0A] @
           ''Sword,'' @ [CHR 0x22] @ ''1,200'' @ [CHR 0x22, CHR 0x0A] @
           [CHR 0x22] @ ''Bag, large'' @ [CHR 0x22] @ '',300'' @ [CHR 0x0A] @
           [CHR 0x22, CHR 0x22, CHR 0x22] @ ''P'' @ [CHR 0x22, CHR 0x22] @ '' x'' @ [CHR 0x22] @ '',45'')"
proof -
  have t: "tablesOfPage ''market'' = Some market"
    by (simp add: tablesOfPage_def)
  have "separatedBy [CHR 0x0A]
               (map (\<lambda>r. separatedBy '','' (map (\<lambda>c. csvEscaped (trim (cellText c))) (cells r)))
                  (allRows market)) =
        ''Item,Price'' @ [CHR 0x0A] @
           ''Sword,'' @ [CHR 0x22] @ ''1,200'' @ [CHR 0x22, CHR 0x0A] @
           [CHR 0x22] @ ''Bag, large'' @ [CHR 0x22] @ '',300'' @ [CHR 0x0A] @
           [CHR 0x22, CHR 0x22, CHR 0x22] @ ''P'' @ [CHR 0x22, CHR 0x22] @ '' x'' @ [CHR 0x22] @ '',45''"
    by (simp add: separatedBy_def csvEscaped_def allRows_def market_def textCell_def js_eval)
  with csv_export_quotes_and_joins [of "[]" tablesOfPage "''market''" market None] t
  show ?thesis by simp
qed


section \<open>Properties of the filter\<close>

lemma stringIncludes_sublist: "stringIncludes t f = sublist f t"
  by (induction t) (simp_all add: sublist_Cons_right)

lemma toLowerCase_Nil: "toLowerCase [] = []"
  by (simp add: toLowerCase_def)

lemma filterRow_display:
  "filterRow (toLowerCase f) col r =
     r\<lparr>display := (if sublist (toLowerCase f) (toLowerCase (columnText r col))
                    then [] else ''none'')\<rparr>"
  by (simp add: filterRow_def columnText_def stringIncludes_sublist toLowerCase_Nil)

lemma bodyRows_map:
  "concat (map rows (filter (\<lambda>s. kind s = TBody)
     (map (\<lambda>s. if kind s = TBody then s\<lparr>rows := map g (rows s)\<rparr> else s) ss)))
   = map g (concat (map rows (filter (\<lambda>s. kind s = TBody) ss)))"
  by (induction ss) simp_all

lemma otherSections_map:
  "filter (\<lambda>s. kind s \<noteq> TBody)
     (map (\<lambda>s. if kind s = TBody then s\<lparr>rows := map g (rows s)\<rparr> else s) ss)
   = filter (\<lambda>s. kind s \<noteq> TBody) ss"
  by (induction ss) simp_all

text \<open>
  Claim C8. \<^verbatim>\<open>filterTable\<close> keeps every row of the bodies, with its cells, and sets its
  \<^verbatim>\<open>display\<close>: empty (shown) when the filter text, in lower case, is a substring of the
  lower-case text of the row's cell in the column, and \<^verbatim>\<open>none\<close> (hidden) otherwise; a row
  with no cell in the column counts with the empty text. The other sections are left
  as they are. So a filter text that occurs in no row hides every row, and the empty
  filter text shows every row.
\<close>

theorem filterTable_hides_rows_without_match:
  assumes "doc tableId = Some t"
  shows "\<exists>t'. filterTable doc tableId filterValue col tableId = Some t' \<and>
           bodyRows t' =
             map (\<lambda>r. r\<lparr>display :=
                          (if sublist (toLowerCase filterValue) (toLowerCase (columnText r col))
                           then [] else ''none'')\<rparr>) (bodyRows t) \<and>
           filter (\<lambda>s. kind s \<noteq> TBody) (sections t') = filter (\<lambda>s. kind s \<noteq> TBody) (sections t) \<and>
           ((\<forall>r\<in>set (bodyRows t).
               \<not> sublist (toLowerCase filterValue) (toLowerCase (columnText r col))) \<longrightarrow>
            (\<forall>r\<in>set (bodyRows t'). display r = ''none'')) \<and>
           (filterValue = [] \<longrightarrow> (\<forall>r\<in>set (bodyRows t'). display r = []))"
proof -
  let ?g = "\<lambda>r. r\<lparr>display :=
                          (if sublist (toLowerCase filterValue) (toLowerCase (columnText r col))
                           then [] else ''none'')\<rparr>"
  let ?t' = "t\<lparr>sections :=
                    map (\<lambda>s. if kind s = TBody
                              then s\<lparr>rows := map (filterRow (toLowerCase filterValue) col) (rows s)\<rparr>
                              else s) (sections t)\<rparr>"
  have g: "filterRow (toLowerCase filterValue) col = ?g"
    by (rule ext) (rule filterRow_display)
  have a: "filterTable doc tableId filterValue col tableId = Some ?t'"
    using assms by (simp add: filterTable_def Let_def)
  have b: "bodyRows ?t' = map ?g (bodyRows t)"
    unfolding g by (simp add: bodyRows_def bodyRows_map)
  have c: "filter (\<lambda>s. kind s \<noteq> TBody) (sections ?t') = filter (\<lambda>s. kind s \<noteq> TBody) (sections t)"
    by (simp add: otherSections_map)
  have d: "(\<forall>r\<in>set (bodyRows t).
               \<not> sublist (toLowerCase filterValue) (toLowerCase (columnText r col))) \<longrightarrow>
            (\<forall>r\<in>set (bodyRows ?t'). display r = ''none'')"
    unfolding b by auto
  have e: "filterValue = [] \<longrightarrow> (\<forall>r\<in>set (bodyRows ?t'). display r = [])"
    unfolding b by (auto simp: toLowerCase_Nil)
  from a b c d e show ?thesis by blast
qed

text \<open>
  Claim C8 at a concrete input: on the first column of the example table the filter
  \<^verbatim>\<open>BAG\<close> shows the one row that holds \<^verbatim>\<open>Bag\<close>, the filter \<^verbatim>\<open>axe\<close> hides all three rows,
  and the empty filter shows all three.
\<close>

theorem filterTable_hides_rows_without_match_witness:
  "tablesOfPage ''market'' = Some market \<and>
   map_option (\<lambda>t. map display (bodyRows t)) (filterTable tablesOfPage ''market'' ''BAG'' 0 ''market'')
     = Some [''none'', [], ''none''] \<and>
   map_option (\<lambda>t. map display (bodyRows t)) (filterTable tablesOfPage ''market'' ''axe'' 0 ''market'')
     = Some [''none'', ''none'', ''none''] \<and>
   map_option (\<lambda>t. map display (bodyRows t)) (filterTable tablesOfPage ''market'' [] 0 ''market'')
     = Some [[], [], []]"
proof -
  have t: "tablesOfPage ''market'' = Some market"
    by (simp add: tablesOfPage_def)
  have rows: "map (\<lambda>r. toLowerCase (columnText r 0)) (bodyRows market) =
      [''sword'', ''bag, large'', [CHR 0x22, CHR ''p'', CHR 0x22, CHR '' '', CHR ''x'']]"
    by (simp add: bodyRows_def market_def textCell_def columnText_def toLowerCase_def js_eval)
  have shown: "map display (bodyRows market) = [[], [], []]"
    by (simp add: bodyRows_def market_def)
  have len: "length (bodyRows market) = 3"
    by (simp add: bodyRows_def market_def)
  have bag: "toLowerCase ''BAG'' = ''bag''" and axe: "toLowerCase ''axe'' = ''axe''"
    by (simp_all add: toLowerCase_def js_eval)
  have m1: "\<not> sublist ''bag'' ''sword''" "sublist ''bag'' ''bag, large''"
    "\<not> sublist ''bag'' [CHR 0x22, CHR ''p'', CHR 0x22, CHR '' '', CHR ''x'']"
    by (simp_all add: stringIncludes_sublist [symmetric])
  have m2: "\<not> sublist ''axe'' ''sword''" "\<not> sublist ''axe'' ''bag, large''"
    "\<not> sublist ''axe'' [CHR 0x22, CHR ''p'', CHR 0x22, CHR '' '', CHR ''x'']"
    by (simp_all add: stringIncludes_sublist [symmetric])
  obtain r0 r1 r2 where rs: "bodyRows market = [r0, r1, r2]"
    using len by (auto simp: length_Suc_conv numeral_3_eq_3)
  from rows rs have tx: "toLowerCase (columnText r0 0) = ''sword''"
    "toLowerCase (columnText r1 0) = ''bag, large''"
    "toLowerCase (columnText r2 0) = [CHR 0x22, CHR ''p'', CHR 0x22, CHR '' '', CHR ''x'']"
    by simp_all
  from filterTable_hides_rows_without_match [of tablesOfPage "''market''" market "''BAG''" 0, OF t]
  have a: "map_option (\<lambda>t. map display (bodyRows t)) (filterTable tablesOfPage ''market'' ''BAG'' 0 ''market'')
     = Some [''none'', [], ''none'']"
    by (auto simp: rs tx bag m1)
  from filterTable_hides_rows_without_match [of tablesOfPage "''market''" market "''axe''" 0, OF t]
  have b: "map_option (\<lambda>t. map display (bodyRows t)) (filterTable tablesOfPage ''market'' ''axe'' 0 ''market'')
     = Some [''none'', ''none'', ''none'']"
    by (auto simp: rs tx axe m2)
  from filterTable_hides_rows_without_match [of tablesOfPage "''market''" market "[]" 0, OF t]
  have c: "map_option (\<lambda>t. map display (bodyRows t)) (filterTable tablesOfPage ''market'' [] 0 ''market'')
     = Some [[], [], []]"
    by (auto simp: rs toLowerCase_Nil)
  from t a b c show ?thesis by simp
qed


section \<open>Properties of the sort\<close>

lemma cellValue_Inr: "(\<exists>v. cellValue r col = Inr v) = hasCell col r"
  by (simp add: cellValue_def hasCell_def)

lemma cellValue_Inl: "cellValue r col = Inl e \<Longrightarrow> \<not> hasCell col r"
  by (simp add: cellValue_def hasCell_def split: if_splits)

lemma compareRows_Inr:
  assumes "compareRows lc num dir col a b = Inr v"
  shows "hasCell col a \<and> hasCell col b"
proof (cases "cellValue a col")
  case (Inl e)
  with assms show ?thesis by (simp add: compareRows_def)
next
  case a: (Inr aVal)
  show ?thesis
  proof (cases "cellValue b col")
    case (Inl e)
    with a assms show ?thesis by (simp add: compareRows_def)
  next
    case (Inr bVal)
    with a cellValue_Inr [of a col] cellValue_Inr [of b col] show ?thesis by simp
  qed
qed

lemma compareRows_total:
  assumes "hasCell col a" and "hasCell col b"
  shows "\<exists>v. compareRows lc num dir col a b = Inr v"
proof -
  from assms obtain aVal bVal where "cellValue a col = Inr aVal" "cellValue b col = Inr bVal"
    using cellValue_Inr [of a col] cellValue_Inr [of b col] by auto
  then show ?thesis
    by (simp add: compareRows_def)
qed

lemma insertRow_Cons_Inr:
  assumes "insertRow cmp x (y # ys) = Inr zs"
  shows "\<exists>v. cmp x y = Inr v \<and>
           (zs = x # y # ys \<or> (\<exists>ws. insertRow cmp x ys = Inr ws \<and> zs = y # ws))"
proof (cases "cmp x y")
  case (Inl e)
  with assms show ?thesis by simp
next
  case v: (Inr v)
  show ?thesis
  proof (cases "case v of None \<Rightarrow> False | Some d \<Rightarrow> d < 0")
    case True
    with v assms show ?thesis by simp
  next
    case False
    show ?thesis
    proof (cases "insertRow cmp x ys")
      case (Inl e)
      with v False assms show ?thesis by simp
    next
      case (Inr ws)
      with v False assms show ?thesis by simp
    qed
  qed
qed

lemma insertRow_Inr:
  "insertRow cmp x ys = Inr zs \<Longrightarrow> set zs = set (x # ys) \<and> length zs = Suc (length ys)"
proof (induction ys arbitrary: zs)
  case Nil
  then show ?case by auto
next
  case (Cons y ys)
  from insertRow_Cons_Inr [OF Cons.prems]
  consider "zs = x # y # ys" | ws where "insertRow cmp x ys = Inr ws" "zs = y # ws"
    by blast
  then show ?case
  proof cases
    case 1
    then show ?thesis by auto
  next
    case 2
    from Cons.IH [OF 2(1)] 2(2) show ?thesis by auto
  qed
qed

lemma insertRow_Inr_cells:
  assumes "insertRow (compareRows lc num dir col) x (y # ys) = Inr zs"
  shows "hasCell col x \<and> hasCell col y"
proof -
  from insertRow_Cons_Inr [OF assms] obtain v where
    "compareRows lc num dir col x y = Inr v" by blast
  then show ?thesis by (rule compareRows_Inr)
qed

lemma insertRow_total:
  "\<forall>r\<in>set (x # ys). hasCell col r \<Longrightarrow> \<exists>zs. insertRow (compareRows lc num dir col) x ys = Inr zs"
proof (induction ys)
  case Nil
  then show ?case by simp
next
  case (Cons y ys)
  then have "hasCell col x" "hasCell col y" by simp_all
  from compareRows_total [OF this] obtain v where
    v: "compareRows lc num dir col x y = Inr v" by blast
  from Cons obtain zs where zs: "insertRow (compareRows lc num dir col) x ys = Inr zs"
    by auto
  show ?case
  proof (cases "case v of None \<Rightarrow> False | Some d \<Rightarrow> d < 0")
    case True
    with v show ?thesis by simp
  next
    case False
    with v zs show ?thesis by simp
  qed
qed

lemma sortRows_Cons_Inr:
  assumes "sortRows cmp acc (x # xs) = Inr zs"
  shows "\<exists>acc'. insertRow cmp x acc = Inr acc' \<and> sortRows cmp acc' xs = Inr zs"
proof (cases "insertRow cmp x acc")
  case (Inl e)
  with assms show ?thesis by simp
next
  case (Inr acc')
  with assms show ?thesis by simp
qed

lemma sortRows_Inr:
  "sortRows cmp acc xs = Inr zs \<Longrightarrow> set zs = set (acc @ xs) \<and> length zs = length acc + length xs"
proof (induction xs arbitrary: acc)
  case Nil
  then show ?case by simp
next
  case (Cons x xs)
  from sortRows_Cons_Inr [OF Cons.prems] obtain acc' where a: "insertRow cmp x acc = Inr acc'"
    and s: "sortRows cmp acc' xs = Inr zs"
    by blast
  from insertRow_Inr [OF a] Cons.IH [OF s] show ?case by auto
qed

lemma sortRows_total:
  "\<forall>r\<in>set (acc @ xs). hasCell col r \<Longrightarrow> \<exists>zs. sortRows (compareRows lc num dir col) acc xs = Inr zs"
proof (induction xs arbitrary: acc)
  case Nil
  then show ?case by simp
next
  case (Cons x xs)
  then have "\<forall>r\<in>set (x # acc). hasCell col r" by auto
  from insertRow_total [OF this] obtain acc' where
    a: "insertRow (compareRows lc num dir col) x acc = Inr acc'" by blast
  from insertRow_Inr [OF a] Cons.prems have "\<forall>r\<in>set (acc' @ xs). hasCell col r" by auto
  from Cons.IH [OF this] a show ?case by simp
qed

lemma sortRows_Inr_cells:
  assumes "sortRows (compareRows lc num dir col) acc xs = Inr zs"
    and "sortableRows col acc"
  shows "sortableRows col (acc @ xs)"
  using assms
proof (induction xs arbitrary: acc)
  case Nil
  then show ?case by simp
next
  case (Cons x xs)
  from sortRows_Cons_Inr [OF Cons.prems(1)] obtain acc' where
    a: "insertRow (compareRows lc num dir col) x acc = Inr acc'"
    and s: "sortRows (compareRows lc num dir col) acc' xs = Inr zs"
    by blast
  have acc': "set acc' = set (x # acc)" "length acc' = Suc (length acc)"
    using insertRow_Inr [OF a] by simp_all
  have ok: "sortableRows col acc'"
  proof (cases acc)
    case Nil
    with acc' show ?thesis by (simp add: sortableRows_def)
  next
    case (Cons y ys)
    with a have xy: "hasCell col x" "hasCell col y"
      using insertRow_Inr_cells by blast+
    from Cons.prems(2) Cons xy have "\<forall>r\<in>set acc. hasCell col r"
      by (cases ys) (auto simp: sortableRows_def)
    with xy acc' show ?thesis by (simp add: sortableRows_def)
  qed
  from Cons.IH [OF s ok] have "sortableRows col (acc' @ xs)" .
  with acc' show ?case
    by (auto simp: sortableRows_def)
qed

lemma sortRows_short: "length xs \<le> 1 \<Longrightarrow> sortRows cmp [] xs = Inr xs"
  by (cases xs) (auto simp: le_Suc_eq)

lemma sortRows_sortable:
  assumes "sortableRows col rs"
  shows "\<exists>zs. sortRows (compareRows lc num dir col) [] rs = Inr zs \<and> sortableRows col zs"
proof -
  from assms have "\<exists>zs. sortRows (compareRows lc num dir col) [] rs = Inr zs"
    using sortRows_short [of rs] sortRows_total [of "[]" rs col lc num dir]
    by (auto simp: sortableRows_def)
  then obtain zs where zs: "sortRows (compareRows lc num dir col) [] rs = Inr zs" ..
  from sortRows_Inr [OF zs] assms have "sortableRows col zs"
    by (auto simp: sortableRows_def)
  with zs show ?thesis by blast
qed






lemma sortableRows_widths:
  assumes "map (\<lambda>r. length (cells r)) rs = map (\<lambda>r. length (cells r)) rs'"
  shows "sortableRows col rs = sortableRows col rs'"
proof -
  have a: "length rs = length rs'"
    using assms by (rule map_eq_imp_length_eq)
  have "(\<forall>r\<in>set rs. hasCell col r) = (\<forall>w\<in>set (map (\<lambda>r. length (cells r)) rs). col < w)"
    by (simp add: hasCell_def)
  moreover have "(\<forall>r\<in>set rs'. hasCell col r) = (\<forall>w\<in>set (map (\<lambda>r. length (cells r)) rs'). col < w)"
    by (simp add: hasCell_def)
  ultimately show ?thesis
    using a assms by (simp add: sortableRows_def)
qed

lemma sortTable_Inr_sortable:
  assumes "doc tableId = Some t"
    and "sortTable lc doc tableId col num = Inr doc1"
  shows "\<exists>k. firstBody (sections t) = Some k \<and> sortableRows col (rows (sections t ! k))"
proof -
  from assms obtain k where k: "firstBody (sections t) = Some k"
    by (auto simp: sortTable_def split: option.splits)
  with assms obtain zs where
    "sortRows (compareRows lc num (newDir t col) col) [] (rows (sections t ! k)) = Inr zs"
    by (auto simp: sortTable_def Let_def split: sum.splits)
  from sortRows_Inr_cells [OF this] have "sortableRows col (rows (sections t ! k))"
    by (simp add: sortableRows_def)
  with k show ?thesis by blast
qed














lemma numericRank_Cons [js_eval]:
  "numericRank (Char a b c d e f g h # s) =
     (case parseFloat (numericChars (Char a b c d e f g h # s)) of None \<Rightarrow> 0 | Some v \<Rightarrow> v)"
  by (simp only: numericRank_def)

text \<open>
  The numeric comparison orders consistently every set of texts that all hold a
  number.
\<close>

lemma numeric_ordersBy:
  assumes "\<forall>x\<in>K. parseFloat (numericChars x) \<noteq> None"
  shows "ordersBy (comparison lc True) numericRank K"
  unfolding ordersBy_def
proof (intro ballI)
  fix x y
  assume "x \<in> K" and "y \<in> K"
  with assms obtain a b where a: "parseFloat (numericChars x) = Some a"
    and b: "parseFloat (numericChars y) = Some b" by (meson not_Some_eq)
  then have "comparison lc True x y = Some (a - b)" "numericRank x = a" "numericRank y = b"
    by (simp_all add: comparison_def numericRank_def)
  then show "\<exists>d. comparison lc True x y = Some d \<and>
               (d < 0 \<longleftrightarrow> numericRank x < numericRank y) \<and>
               (0 < d \<longleftrightarrow> numericRank y < numericRank x)"
    by simp
qed



text \<open>The first of these calls puts the prices in the order 45, 300, 1,200.\<close>

lemma sortTable_example_order:
  "map_option (\<lambda>t. map (sortKey 1) (firstBodyRows t))
     (case sortTable codeUnitCompare tablesOfPage ''market'' 1 True of
        Inl e \<Rightarrow> None | Inr d \<Rightarrow> d ''market'')
   = Some [''45'', ''300'', ''1,200'']"
  by (simp add: table_eval tablesOfPage_def market_def js_eval firstBodyRows_def sortKey_def
      columnText_def Let_def)


text \<open>
  The three table functions return at once when no table has the id.
\<close>

lemma table_absent_noop:
  assumes "doc tableId = None"
  shows "sortTable lc doc tableId col num = Inr doc"
    and "filterTable doc tableId filterValue col = doc"
    and "exportTableToCSV doc tableId filename = None"
  using assms by (simp_all add: sortTable_def filterTable_def exportTableToCSV_def)

text \<open>
  Claim C5 fails on \<^verbatim>\<open>sortTable\<close>. The comparator reads \<^verbatim>\<open>a.cells[columnIndex].textContent\<close>
  with no test, where \<^verbatim>\<open>filterTable\<close> tests the cell first: on a body of two rows, one of
  them a single cell wide, sorting by the second column throws a \<^verbatim>\<open>TypeError\<close>. The
  body is not tested either: on a table with a head and no body the call throws.
\<close>

theorem sortTable_throws_on_missing_cell_or_body:
  "tablesOfPage ''offers'' = Some offers \<and>
   sortTable codeUnitCompare tablesOfPage ''offers'' 1 False = Inl TypeError \<and>
   sortTable codeUnitCompare
     [''prices'' \<mapsto> \<lparr>sections = [\<lparr>kind = THead, rows = []\<rparr>],
                      sortColumn = None, sortDirection = None\<rparr>] ''prices'' 0 False
     = Inl TypeError"
  by (simp add: table_eval tablesOfPage_def offers_def js_eval)

end
